theory Spec2Isabelle
  imports
    Complex_Main
    "HOL-Library.AList"
    "HOL-Library.Char_ord"
    "HOL-Library.List_Lexorder"
begin

text \<open>
  A shallow embedding of the query and mutation engine of \<open>langchain_vdms.vectorstores\<close>:
  the class \<open>VDMS\<close> and its helper \<open>VDMS_Utils\<close>. Every method is a function of the
  store's state that returns the new state beside its result, or the exception it raises
  (\<open>Inl\<close>). The server behind \<open>client.query\<close> is a parameter of every function, so that a
  statement about all servers is a statement about everything the client may be
  answered. The embedding model, the transport and \<open>langchain_core\<close>'s validation of a
  \<open>Document\<close> are outside the model.
\<close>

section \<open>Python values\<close>

text \<open>
  The store exchanges JSON with the VDMS server. A Python float is modelled as an exact
  rational extended by the two infinities and by nan; rounding is not modelled. JSON
  integers and floats are not told apart.
\<close>

datatype pyfloat = Fin rat | PInf | NInf | NaN

datatype pval =
    PStr string
  | PNum pyfloat
  | PBool bool
  | PNone
  | PList "pval list"
  | PDict "(string \<times> pval) list"

text \<open>
  A Python \<open>dict\<close> with string keys is an association list in insertion order.
\<close>

type_synonym pdict = "(string \<times> pval) list"

datatype error =
    ValueError string
  | KeyError string
  | IndexError
  | TypeError
  | ZeroDivisionError
  | UnboundLocalError string
  | UnicodeDecodeError

datatype level = INFO | WARNING | ERROR

subsection \<open>Float arithmetic\<close>

fun fsub :: "pyfloat \<Rightarrow> pyfloat \<Rightarrow> pyfloat" where
  "fsub NaN _ = NaN"
| "fsub _ NaN = NaN"
| "fsub (Fin a) (Fin b) = Fin (a - b)"
| "fsub (Fin a) PInf = NInf"
| "fsub (Fin a) NInf = PInf"
| "fsub PInf PInf = NaN"
| "fsub PInf _ = PInf"
| "fsub NInf NInf = NaN"
| "fsub NInf _ = NInf"

text \<open>
  Float division raises \<open>ZeroDivisionError\<close> on a zero divisor, whatever the dividend.
\<close>

fun fdiv :: "pyfloat \<Rightarrow> pyfloat \<Rightarrow> error + pyfloat" where
  "fdiv x (Fin b) =
     (if b = 0 then Inl ZeroDivisionError
      else case x of
        Fin a \<Rightarrow> Inr (Fin (a / b))
      | PInf \<Rightarrow> Inr (if 0 < b then PInf else NInf)
      | NInf \<Rightarrow> Inr (if 0 < b then NInf else PInf)
      | NaN \<Rightarrow> Inr NaN)"
| "fdiv (Fin a) PInf = Inr (Fin 0)"
| "fdiv (Fin a) NInf = Inr (Fin 0)"
| "fdiv _ _ = Inr NaN"

fun fgt :: "pyfloat \<Rightarrow> pyfloat \<Rightarrow> bool" where
  "fgt NaN _ = False"
| "fgt _ NaN = False"
| "fgt (Fin a) (Fin b) = (b < a)"
| "fgt (Fin a) PInf = False"
| "fgt (Fin a) NInf = True"
| "fgt PInf PInf = False"
| "fgt PInf _ = True"
| "fgt NInf _ = False"

text \<open>
  The builtin \<open>max\<close> of a list: the first item, replaced by each later item that
  compares greater; \<open>ValueError\<close> on an empty list.
\<close>

definition py_max :: "pyfloat list \<Rightarrow> error + pyfloat" where
  "py_max xs =
     (case xs of
        [] \<Rightarrow> Inl (ValueError ''max() arg is an empty sequence'')
      | x # rest \<Rightarrow> Inr (foldl (\<lambda>m y. if fgt y m then y else m) x rest))"

text \<open>\<open>round(x, 10)\<close>: ten decimal places, ties to even.\<close>

definition round_half_even :: "rat \<Rightarrow> int" where
  "round_half_even q =
     (let f = \<lfloor>q\<rfloor>; r = q - of_int f
      in if r < 1 / 2 then f
         else if 1 / 2 < r then f + 1
         else if even f then f else f + 1)"

definition py_round10 :: "pyfloat \<Rightarrow> pyfloat" where
  "py_round10 x =
     (case x of
        Fin q \<Rightarrow> Fin (of_int (round_half_even (q * 10 ^ 10)) / 10 ^ 10)
      | _ \<Rightarrow> x)"

subsection \<open>Lists, slices, ranges and strings\<close>

text \<open>A slice bound is clamped to the list; a negative one counts from the end.\<close>

definition py_index :: "int \<Rightarrow> nat \<Rightarrow> nat" where
  "py_index i n = (if i < 0 then nat (max 0 (i + int n)) else min (nat i) n)"

definition py_slice :: "'a list \<Rightarrow> int \<Rightarrow> int \<Rightarrow> 'a list" where
  "py_slice xs i j =
     (let a = py_index i (length xs); b = py_index j (length xs)
      in take (b - a) (drop a xs))"

definition py_take :: "'a list \<Rightarrow> int \<Rightarrow> 'a list" where
  "py_take xs j = py_slice xs 0 j"

text \<open>\<open>range(a, b, step)\<close> raises \<open>ValueError\<close> when the step is zero.\<close>

definition py_range :: "int \<Rightarrow> int \<Rightarrow> int \<Rightarrow> error + int list" where
  "py_range a b step =
     (if step = 0 then Inl (ValueError ''range() arg 3 must not be zero'')
      else if 0 < step then
        Inr (map (\<lambda>i. a + int i * step) [0 ..< nat ((b - a + step - 1) div step)])
      else
        Inr (map (\<lambda>i. a + int i * step) [0 ..< nat ((a - b - step - 1) div (- step))]))"

text \<open>\<open>pat in s\<close> on strings: \<open>pat\<close> occurs in \<open>s\<close> as a contiguous run.\<close>

fun str_contains :: "string \<Rightarrow> string \<Rightarrow> bool" where
  "str_contains pat [] = (pat = [])"
| "str_contains pat (c # cs) = (take (length pat) (c # cs) = pat \<or> str_contains pat cs)"

text \<open>\<open>s.split(",")\<close>: the empty string splits into one empty field.\<close>

fun split_comma_acc :: "string \<Rightarrow> string \<Rightarrow> string list" where
  "split_comma_acc cur [] = [cur]"
| "split_comma_acc cur (c # cs) =
     (if c = CHR '','' then cur # split_comma_acc [] cs else split_comma_acc (cur @ [c]) cs)"

definition split_comma :: "string \<Rightarrow> string list" where
  "split_comma s = split_comma_acc [] s"

fun join_comma :: "string list \<Rightarrow> string" where
  "join_comma [] = []"
| "join_comma [x] = x"
| "join_comma (x # y # ys) = x @ '','' @ join_comma (y # ys)"

text \<open>Decimal rendering of a natural number, as an f-string prints a length.\<close>

function str_nat :: "nat \<Rightarrow> string" where
  "str_nat n =
     (if n < 10 then [char_of (48 + n)]
      else str_nat (n div 10) @ [char_of (48 + n mod 10)])"
  by pat_completeness auto
termination
  by (relation "measure id") auto

declare str_nat.simps [simp del]

subsection \<open>Dictionaries\<close>

definition dict_has :: "pdict \<Rightarrow> string \<Rightarrow> bool" where
  "dict_has d k = (k \<in> fst ` set d)"

text \<open>\<open>d[k]\<close> raises \<open>KeyError\<close> on a missing key.\<close>

definition dict_get :: "pdict \<Rightarrow> string \<Rightarrow> error + pval" where
  "dict_get d k = (case map_of d k of None \<Rightarrow> Inl (KeyError k) | Some v \<Rightarrow> Inr v)"

section \<open>Module constants\<close>

definition TEXT_PROPERTY :: string where
  "TEXT_PROPERTY = ''content''"

definition DEFAULT_COLLECTION_NAME :: string where
  "DEFAULT_COLLECTION_NAME = ''langchain''"

definition LANGCHAIN_ID_PROPERTY :: string where
  "LANGCHAIN_ID_PROPERTY = ''langchain_id''"

definition DEFAULT_INSERT_BATCH_SIZE :: int where
  "DEFAULT_INSERT_BATCH_SIZE = 500"

definition DEFAULT_K :: int where
  "DEFAULT_K = 3"

definition DEFAULT_FETCH_K :: int where
  "DEFAULT_FETCH_K = DEFAULT_K * 5"

definition INVALID_METADATA_VALUE :: "pval list" where
  "INVALID_METADATA_VALUE = [PStr ''Missing property'', PNone, PDict []]"

definition DEFAULT_PROPERTIES :: "string list" where
  "DEFAULT_PROPERTIES = [''_distance'', LANGCHAIN_ID_PROPERTY, TEXT_PROPERTY]"

definition INVALID_DOC_METADATA_KEYS :: "string list" where
  "INVALID_DOC_METADATA_KEYS = [''_distance'', TEXT_PROPERTY, ''blob'']"

section \<open>The wire protocol\<close>

text \<open>
  A command is a one-key JSON object. The descriptor commands are built by
  \<open>add_descriptor\<close>; every call site passes \<open>"FindDescriptor"\<close> or \<open>"AddDescriptor"\<close> as
  the command string, and \<open>None\<close> for \<open>label\<close>, \<open>ref\<close> and \<open>link\<close>, which are left out.
\<close>

datatype cmd_name = FindDescriptor | AddDescriptor

text \<open>The \<open>results\<close> block of a command: each key may be absent.\<close>

record results =
  res_list :: "string list option"
  res_blob :: "bool option"
  res_count :: "string option"

record descriptor_cmd =
  cmd_set :: string
  cmd_batch_properties :: "pdict list option"
  cmd_properties :: "pdict option"
  cmd_k_neighbors :: "int option"
  cmd_constraints :: "pdict option"
  cmd_results :: "results option"

record entity_cmd =
  ent_class :: string
  ent_unique :: "bool option"
  ent_blob :: "bool option"
  ent_properties :: "pdict option"
  ent_results :: "results option"
  ent_constraints :: "pdict option"

datatype command =
    Descriptor cmd_name descriptor_cmd
  | FindDescriptorSet string bool
  | FindEntity entity_cmd
  | AddEntity entity_cmd

text \<open>
  A blob is a byte string: the float32 image of an embedding, or encoded text.
  \<open>push_update_properties\<close> passes a list of blobs where one blob is expected.
\<close>

datatype blob = EmbeddingBlob "rat list" | TextBlob string | NestedBlobs "blob list"

text \<open>
  One answer per command. A \<open>FindDescriptor\<close> answer may carry \<open>entities\<close> and
  \<open>returned\<close>; an \<open>AddDescriptor\<close> answer carries its \<open>status\<close>; a failed command is
  answered by an object with the keys \<open>FailedCommand\<close> and \<open>info\<close>; the answers to the
  other commands are not inspected by the code modelled here.
\<close>

datatype response =
    FindDescriptorR "pdict list option" "int option"
  | AddDescriptorR int
  | FailedCommandR string
  | OtherR

text \<open>
  The client is a collaborator: \<open>client.query(commands, blobs)\<close> answers from its own
  state, which is the type parameter.
\<close>

type_synonym 'b client = "'b \<Rightarrow> command list \<Rightarrow> blob list \<Rightarrow> (response list \<times> blob list) \<times> 'b"

text \<open>
  The store: the server's state, the cached property names, the flag that asks for a
  re-read of them, and what the module's logger has been given (level and message; the
  values an f-string interpolates are left out of the message).
\<close>

record 'b vdms =
  backend :: 'b
  collection_name :: string
  collection_properties :: "string list"
  updated_properties_flag :: bool
  logged :: "(level \<times> string) list"

definition logger :: "level \<Rightarrow> string \<Rightarrow> 'b vdms \<Rightarrow> 'b vdms" where
  "logger lv msg s = s\<lparr>logged := logged s @ [(lv, msg)]\<rparr>"

section \<open>\<open>VDMS_Utils\<close>\<close>

definition results_invalid :: "results option \<Rightarrow> bool" where
  "results_invalid r =
     (case r of
        None \<Rightarrow> True
      | Some x \<Rightarrow> res_list x = None \<and> res_blob x = None \<and> res_count x = None)"

definition add_descriptor ::
  "cmd_name \<Rightarrow> string \<Rightarrow> pdict list option \<Rightarrow> int option \<Rightarrow> pdict option \<Rightarrow>
   results option \<Rightarrow> command" where
  "add_descriptor command_str setname props k_neighbors constraints results =
     (let batch = (case props of Some ps \<Rightarrow> if 1 < length ps then Some ps else None
                   | None \<Rightarrow> None);
          single = (case props of
                      Some [p] \<Rightarrow> if PDict p \<notin> set INVALID_METADATA_VALUE then Some p else None
                    | _ \<Rightarrow> None);
          kn = (if command_str = FindDescriptor then k_neighbors else None);
          cs = (if command_str = FindDescriptor then
                  (case constraints of
                     Some c \<Rightarrow> if PDict c \<notin> set INVALID_METADATA_VALUE then Some c else None
                   | None \<Rightarrow> None)
                else None);
          rs = (if command_str = FindDescriptor \<and> \<not> results_invalid results
                then results else None)
      in Descriptor command_str
           \<lparr>cmd_set = setname, cmd_batch_properties = batch, cmd_properties = single,
            cmd_k_neighbors = kn, cmd_constraints = cs, cmd_results = rs\<rparr>)"

definition add_entity_with_blob :: "string \<Rightarrow> string list \<Rightarrow> command \<times> blob" where
  "add_entity_with_blob name all_properties =
     (let all_properties_str = join_comma all_properties
      in (AddEntity
            \<lparr>ent_class = ''properties'', ent_unique = None, ent_blob = Some True,
             ent_properties = Some [(''name'', PStr name),
                                    (''type'', PStr ''queryable properties''),
                                    (TEXT_PROPERTY, PStr all_properties_str)],
             ent_results = None, ent_constraints = None\<rparr>,
          TextBlob all_properties_str))"

definition find_property_entity :: "string \<Rightarrow> bool \<Rightarrow> bool \<Rightarrow> command" where
  "find_property_entity name unique_entity deletion =
     FindEntity
       \<lparr>ent_class = ''properties'',
        ent_unique = (if unique_entity then Some True else None),
        ent_blob = None,
        ent_properties = None,
        ent_results = Some \<lparr>res_list = Some [TEXT_PROPERTY], res_blob = Some True,
                            res_count = Some []\<rparr>,
        ent_constraints =
          Some ((if deletion then [(''_deletion'', PList [PStr ''=='', PNum (Fin 1)])] else [])
                @ [(''name'', PList [PStr ''=='', PStr name])])\<rparr>"

text \<open>
  \<open>build_property_query\<close> for the command type \<open>"update"\<close>, the only one the store
  uses: find the registry entity and mark it for deletion, then add the new one.
\<close>

definition build_property_query_update :: "string \<Rightarrow> string list \<Rightarrow> command list \<times> blob list" where
  "build_property_query_update name all_properties =
     (let (query, byte_data) = add_entity_with_blob name all_properties
      in ([find_property_entity name False True, query], [byte_data]))"

definition embedding2bytes :: "rat list option \<Rightarrow> blob option" where
  "embedding2bytes embedding = map_option EmbeddingBlob embedding"

definition bytes2str :: "blob \<Rightarrow> error + string" where
  "bytes2str b = (case b of TextBlob s \<Rightarrow> Inr s | _ \<Rightarrow> Inl UnicodeDecodeError)"

text \<open>
  \<open>check_valid_response\<close> reads \<open>response[0]\<close> when there is a command to look for, and
  rewrites every \<open>FindDescriptor\<close> answer: the entities without the identity property are
  dropped and \<open>returned\<close> is recomputed. The flag it also computes is discarded by its
  only caller and is left out.
\<close>

definition id_required :: "response \<Rightarrow> response" where
  "id_required res =
     (case res of
        FindDescriptorR ents ret \<Rightarrow>
          (let ent = (case ents of None \<Rightarrow> [] | Some es \<Rightarrow> es);
               kept = filter (\<lambda>e. dict_has e LANGCHAIN_ID_PROPERTY) ent
           in FindDescriptorR (Some kept) (Some (int (length kept))))
      | _ \<Rightarrow> res)"

definition check_valid_response :: "command list \<Rightarrow> response list \<Rightarrow> error + response list" where
  "check_valid_response all_queries response =
     (if all_queries \<noteq> [] \<and> response = [] then Inl IndexError
      else Inr (map id_required response))"

definition run_vdms_query ::
  "'b client \<Rightarrow> 'b vdms \<Rightarrow> command list \<Rightarrow> blob list \<Rightarrow>
   error + ((response list \<times> blob list) \<times> 'b vdms)" where
  "run_vdms_query q s all_queries all_blobs =
     (case q (backend s) all_queries all_blobs of
        ((response, response_array), b') \<Rightarrow>
          (case check_valid_response all_queries response of
             Inl e \<Rightarrow> Inl e
           | Inr r \<Rightarrow> Inr ((r, response_array), s\<lparr>backend := b'\<rparr>)))"

definition is_failed :: "response \<Rightarrow> bool" where
  "is_failed res = (case res of FailedCommandR _ \<Rightarrow> True | _ \<Rightarrow> False)"

definition get_k_candidates ::
  "'b client \<Rightarrow> 'b vdms \<Rightarrow> string \<Rightarrow> int option \<Rightarrow> results option \<Rightarrow> blob list \<Rightarrow>
   error + ((response list \<times> blob list) \<times> 'b vdms)" where
  "get_k_candidates q s setname k results all_blobs =
     (let query = add_descriptor FindDescriptor setname None k None results
      in case run_vdms_query q s [query] all_blobs of
           Inl e \<Rightarrow> Inl e
         | Inr ((response, response_array), s') \<Rightarrow>
             (case response of
                [] \<Rightarrow> Inl IndexError
              | r0 # _ \<Rightarrow>
                  if is_failed r0 then Inr (([], []), s')
                  else Inr ((response, response_array), s')))"

definition get_properties ::
  "'b client \<Rightarrow> 'b vdms \<Rightarrow> string \<Rightarrow> bool \<Rightarrow> bool \<Rightarrow> error + (string list \<times> 'b vdms)" where
  "get_properties q s name unique_entity deletion =
     (let find_query = find_property_entity name unique_entity deletion
      in case run_vdms_query q s [find_query] [] of
           Inl e \<Rightarrow> Inl e
         | Inr ((response, response_blob), s') \<Rightarrow>
             (case response_blob of
                [] \<Rightarrow> Inr (sort DEFAULT_PROPERTIES, s')
              | b # _ \<Rightarrow>
                  (case bytes2str b of
                     Inl e \<Rightarrow> Inl e
                   | Inr str \<Rightarrow> Inr (sort (split_comma str), s'))))"

section \<open>The property registry of the store\<close>

text \<open>
  \<open>get_props_from_metadata\<close> builds the property map stored with one document and
  registers its keys in \<open>collection_properties\<close>. The identity comes first, the metadata
  keys that are not yet there follow, an \<open>id\<close> inside the metadata is the fallback
  identity, and a non-empty text is stored under \<open>content\<close>. \<open>py_str\<close> stands for the
  builtin \<open>str\<close>.
\<close>

fun merge_metadata :: "pdict \<Rightarrow> pdict \<Rightarrow> pdict" where
  "merge_metadata props [] = props"
| "merge_metadata props ((k, v) # rest) =
     merge_metadata (if dict_has props k then props else props @ [(k, v)]) rest"

fun register_keys :: "string list \<Rightarrow> string list \<Rightarrow> string list" where
  "register_keys cp [] = cp"
| "register_keys cp (k # ks) = register_keys (if k \<in> set cp then cp else cp @ [k]) ks"

definition get_props_from_metadata ::
  "(pval \<Rightarrow> string) \<Rightarrow> 'b vdms \<Rightarrow> string option \<Rightarrow> pdict option \<Rightarrow> string option \<Rightarrow>
   pdict \<times> 'b vdms" where
  "get_props_from_metadata py_str s document metadata id0 =
     (let props0 = (case id0 of None \<Rightarrow> [] | Some i \<Rightarrow> [(LANGCHAIN_ID_PROPERTY, PStr i)]);
          props1 =
            (case metadata of
               None \<Rightarrow> props0
             | Some m \<Rightarrow>
                 if m = [] then props0
                 else
                   (let p = merge_metadata props0 m
                    in case map_of m ''id'' of
                         Some v \<Rightarrow>
                           if \<not> dict_has p LANGCHAIN_ID_PROPERTY
                           then p @ [(LANGCHAIN_ID_PROPERTY, PStr (py_str v))]
                           else p
                       | None \<Rightarrow> p));
          props2 =
            (case document of
               None \<Rightarrow> props1
             | Some d \<Rightarrow> if d = [] then props1 else AList.update ''content'' (PStr d) props1);
          cp = sort (register_keys (collection_properties s) (map fst props2))
      in (props2, s\<lparr>collection_properties := cp\<rparr>))"

text \<open>
  \<open>push_update_properties\<close> reads the server's registry and replaces it when the cache
  holds a name the server lacks. The order of \<open>list(set(...) - set(...))\<close> is
  arbitrary in Python; the sort that follows erases it.
\<close>

definition push_update_properties :: "'b client \<Rightarrow> 'b vdms \<Rightarrow> string \<Rightarrow> error + 'b vdms" where
  "push_update_properties q s name =
     (case get_properties q s name False False of
        Inl e \<Rightarrow> Inl e
      | Inr (pushed_props, s1) \<Rightarrow>
          (let missing_elements =
                 filter (\<lambda>p. p \<notin> set pushed_props) (remdups (collection_properties s1))
           in if 0 < length missing_elements then
                (let pushed = sort (pushed_props @ missing_elements);
                     (all_queries, blob_arr) = build_property_query_update name pushed
                 in case run_vdms_query q s1 all_queries [NestedBlobs blob_arr] of
                      Inl e \<Rightarrow> Inl e
                    | Inr (_, s2) \<Rightarrow> Inr (s2\<lparr>updated_properties_flag := True\<rparr>))
              else Inr s1))"

definition check_and_update_properties :: "'b client \<Rightarrow> 'b vdms \<Rightarrow> error + 'b vdms" where
  "check_and_update_properties q s =
     (if updated_properties_flag s then
        (case get_properties q s (collection_name s) False False of
           Inl e \<Rightarrow> Inl e
         | Inr (pushed_props, s1) \<Rightarrow>
             (let cp = sort (collection_properties s1);
                  pp = sort pushed_props
              in Inr (s1\<lparr>collection_properties := (if cp \<noteq> pp then pp else cp),
                         updated_properties_flag := False\<rparr>)))
      else Inr s)"

section \<open>Nearest-neighbour retrieval\<close>

text \<open>A list comprehension whose element expression may raise.\<close>

fun map_err :: "('a \<Rightarrow> error + 'c) \<Rightarrow> 'a list \<Rightarrow> error + 'c list" where
  "map_err f [] = Inr []"
| "map_err f (x # xs) =
     (case f x of
        Inl e \<Rightarrow> Inl e
      | Inr y \<Rightarrow> (case map_err f xs of Inl e \<Rightarrow> Inl e | Inr ys \<Rightarrow> Inr (y # ys)))"

text \<open>
  \<open>ent["_distance"]\<close> as a number. The server computes the distance, so it is a number
  whenever it is there; arithmetic on anything else is a \<open>TypeError\<close>. Distances that
  are not numbers are outside what is modelled: where the source lets a single such
  value through \<open>max\<close> and the loop then replaces it by 1.0, \<open>normalize_response\<close> below
  raises this \<open>TypeError\<close>. The statements about normalisation assume numeric distances.
\<close>

definition ent_distance :: "pdict \<Rightarrow> error + pyfloat" where
  "ent_distance ent =
     (case dict_get ent ''_distance'' of
        Inl e \<Rightarrow> Inl e
      | Inr v \<Rightarrow> (case v of PNum d \<Rightarrow> Inr d | _ \<Rightarrow> Inl TypeError))"

text \<open>Python's \<open>==\<close> on floats: nan equals nothing.\<close>

definition feq :: "pyfloat \<Rightarrow> pyfloat \<Rightarrow> bool" where
  "feq x y = (x \<noteq> NaN \<and> x = y)"

subsection \<open>Distance normalisation\<close>

text \<open>
  The loop over the entities at the end of \<open>get_descriptor_response\<close>: the quotient is
  computed inside a \<open>try\<close>, and any exception there is replaced by a constant and two
  log lines.
\<close>

fun normalize_loop :: "pyfloat \<Rightarrow> pyfloat \<Rightarrow> pdict list \<Rightarrow> 'b vdms \<Rightarrow> pdict list \<times> 'b vdms" where
  "normalize_loop min_dist max_dist [] s = ([], s)"
| "normalize_loop min_dist max_dist (ent # rest) s =
     (let attempt =
            (case ent_distance ent of
               Inl e \<Rightarrow> Inl e
             | Inr d \<Rightarrow> fdiv (fsub d min_dist) (fsub max_dist min_dist));
          (v, s1) =
            (case attempt of
               Inr v \<Rightarrow> (v, s)
             | Inl e \<Rightarrow>
                 (if feq max_dist min_dist then Fin 0 else Fin 1,
                  logger INFO ''Normalizing to ''
                    (logger INFO ''Exception[in get_descriptor_response]: {e}'' s)));
          (rest', s2) = normalize_loop min_dist max_dist rest s1
      in (AList.update ''_distance'' (PNum v) ent # rest', s2))"

definition normalize_response ::
  "response list \<Rightarrow> 'b vdms \<Rightarrow> error + (response list \<times> 'b vdms)" where
  "normalize_response response s =
     (case response of
        [] \<Rightarrow> Inl IndexError
      | r0 # rs \<Rightarrow>
          (case r0 of
             FindDescriptorR ents ret \<Rightarrow>
               (case ents of
                  None \<Rightarrow> Inl (KeyError ''entities'')
                | Some es \<Rightarrow>
                    (case map_err ent_distance es of
                       Inl e \<Rightarrow> Inl e
                     | Inr ds \<Rightarrow>
                         (let min_dist = Fin 0
                          in case py_max (filter (\<lambda>d. d \<noteq> PInf) ds) of
                               Inl e \<Rightarrow> Inl e
                             | Inr max_dist \<Rightarrow>
                                 (let (es', s') = normalize_loop min_dist max_dist es s
                                  in Inr (FindDescriptorR (Some es') ret # rs, s')))))
           | _ \<Rightarrow> Inl (KeyError ''FindDescriptor'')))"

subsection \<open>The two retrieval paths\<close>

text \<open>
  Without constraints: one query for \<open>fetch_k\<close> neighbours, cut to the first
  \<open>k_neighbors\<close>.
\<close>

definition find_unconstrained ::
  "'b client \<Rightarrow> 'b vdms \<Rightarrow> string \<Rightarrow> int \<Rightarrow> int \<Rightarrow> results option \<Rightarrow> blob list \<Rightarrow>
   error + ((response list \<times> blob list) \<times> 'b vdms)" where
  "find_unconstrained q s setname k_neighbors fetch_k results all_blobs =
     (case get_k_candidates q s setname (Some fetch_k) results all_blobs of
        Inl e \<Rightarrow> Inl e
      | Inr ((response, response_array), s') \<Rightarrow>
          (case response of
             FindDescriptorR (Some ents) ret # rs \<Rightarrow>
               (let new_entities = py_take ents k_neighbors
                in Inr ((FindDescriptorR (Some new_entities) (Some (int (length new_entities))) # rs,
                         py_take response_array (int (length new_entities))), s'))
           | _ \<Rightarrow> Inr ((response, response_array), s')))"

text \<open>
  With constraints the \<open>results\<close> block is made to list the identity property. In the
  source the list appended to is the caller's own; this aliasing is not tracked.
\<close>

definition ensure_id_listed :: "results option \<Rightarrow> results" where
  "ensure_id_listed results =
     (case results of
        None \<Rightarrow> \<lparr>res_list = Some [LANGCHAIN_ID_PROPERTY], res_blob = None, res_count = None\<rparr>
      | Some r \<Rightarrow>
          (case res_list r of
             None \<Rightarrow> r\<lparr>res_list := Some [LANGCHAIN_ID_PROPERTY]\<rparr>
           | Some l \<Rightarrow>
               if LANGCHAIN_ID_PROPERTY \<notin> set l
               then r\<lparr>res_list := Some (l @ [LANGCHAIN_ID_PROPERTY])\<rparr>
               else r))"

text \<open>
  Step (3) of the constrained path: the loop over the neighbours, which tests the length
  after the possible append and leaves as soon as it equals \<open>k_neighbors\<close>.
\<close>

fun intersect_walk :: "pval list \<Rightarrow> int \<Rightarrow> pdict list \<Rightarrow> pdict list \<Rightarrow> error + pdict list" where
  "intersect_walk ids_of_interest k_neighbors new_entities [] = Inr new_entities"
| "intersect_walk ids_of_interest k_neighbors new_entities (ent # rest) =
     (case dict_get ent LANGCHAIN_ID_PROPERTY of
        Inl e \<Rightarrow> Inl e
      | Inr i \<Rightarrow>
          (let new_entities' =
                 (if i \<in> set ids_of_interest then new_entities @ [ent] else new_entities)
           in if int (length new_entities') = k_neighbors then Inr new_entities'
              else intersect_walk ids_of_interest k_neighbors new_entities' rest))"

text \<open>
  The constrained path answers a flag with its result: \<open>True\<close> when it left through one
  of the early \<open>return [], []\<close>, which skip the normalisation.
\<close>

definition constrained_top_k ::
  "'b client \<Rightarrow> 'b vdms \<Rightarrow> string \<Rightarrow> int \<Rightarrow> int \<Rightarrow> results option \<Rightarrow> blob list \<Rightarrow> pval list \<Rightarrow>
   error + (bool \<times> (response list \<times> blob list) \<times> 'b vdms)" where
  "constrained_top_k q s setname k_neighbors fetch_k results all_blobs ids_of_interest =
     (case get_k_candidates q s setname (Some fetch_k) results all_blobs of
        Inl e \<Rightarrow> Inl e
      | Inr ((response, response_array), s2) \<Rightarrow>
          (case response of
             [] \<Rightarrow> Inl IndexError
           | r0 # rs \<Rightarrow>
               (case r0 of
                  FindDescriptorR ents ret \<Rightarrow>
                    (case ret of
                       None \<Rightarrow> Inl (KeyError ''returned'')
                     | Some n \<Rightarrow>
                         if n = 0 then Inr (True, ([], []), s2)
                         else
                           (case ents of
                              None \<Rightarrow> Inl (KeyError ''entities'')
                            | Some es \<Rightarrow>
                                (case intersect_walk ids_of_interest k_neighbors [] es of
                                   Inl e \<Rightarrow> Inl e
                                 | Inr new_entities \<Rightarrow>
                                     (let n' = int (length new_entities);
                                          s3 = (if n' < k_neighbors
                                                then logger WARNING
                                                  ''Returned items < k_neighbors; Try increasing fetch_k'' s2
                                                else s2)
                                      in Inr (False,
                                              (FindDescriptorR (Some new_entities) (Some n') # rs,
                                               py_take response_array n'), s3)))))
                | _ \<Rightarrow> Inr (True, ([], []), s2))))"

definition find_constrained ::
  "'b client \<Rightarrow> 'b vdms \<Rightarrow> string \<Rightarrow> int \<Rightarrow> int \<Rightarrow> pdict \<Rightarrow> results option \<Rightarrow> blob list \<Rightarrow>
   error + (bool \<times> (response list \<times> blob list) \<times> 'b vdms)" where
  "find_constrained q s setname k_neighbors fetch_k constraints results all_blobs =
     (let results' = Some (ensure_id_listed results);
          query = add_descriptor FindDescriptor setname None None (Some constraints) results'
      in case run_vdms_query q s [query] [] of
           Inl e \<Rightarrow> Inl e
         | Inr ((response, response_array), s1) \<Rightarrow>
             (case response of
                [] \<Rightarrow> Inl IndexError
              | r0 # _ \<Rightarrow>
                  (case r0 of
                     FindDescriptorR ents ret \<Rightarrow>
                       (case ret of
                          None \<Rightarrow> Inl (KeyError ''returned'')
                        | Some n \<Rightarrow>
                            if 0 < n then
                              (case ents of
                                 None \<Rightarrow> Inl (KeyError ''entities'')
                               | Some es \<Rightarrow>
                                   (case map_err (\<lambda>ent. dict_get ent LANGCHAIN_ID_PROPERTY) es of
                                      Inl e \<Rightarrow> Inl e
                                    | Inr ids_of_interest \<Rightarrow>
                                        constrained_top_k q s1 setname k_neighbors fetch_k results'
                                          all_blobs ids_of_interest))
                            else Inr (True, ([], []), s1))
                   | _ \<Rightarrow> Inr (True, ([], []), s1))))"

text \<open>
  \<open>get_descriptor_response\<close>; its command string is \<open>"FindDescriptor"\<close> at its only call.
\<close>

definition get_descriptor_response ::
  "'b client \<Rightarrow> 'b vdms \<Rightarrow> string \<Rightarrow> int \<Rightarrow> int \<Rightarrow> pdict option \<Rightarrow> results option \<Rightarrow>
   rat list option \<Rightarrow> bool \<Rightarrow> error + ((response list \<times> blob list) \<times> 'b vdms)" where
  "get_descriptor_response q s setname k_neighbors fetch_k constraints results query_embedding
     normalize_distance =
     (if fetch_k \<le> k_neighbors
      then Inl (ValueError ''Provide fetch_k > k; Currently set at {fetch_k}'')
      else
        (let all_blobs = (case embedding2bytes query_embedding of None \<Rightarrow> [] | Some b \<Rightarrow> [b]);
             found =
               (case constraints of
                  None \<Rightarrow>
                    (case find_unconstrained q s setname k_neighbors fetch_k results all_blobs of
                       Inl e \<Rightarrow> Inl e
                     | Inr r \<Rightarrow> Inr (False, r))
                | Some c \<Rightarrow>
                    find_constrained q s setname k_neighbors fetch_k c results all_blobs)
         in case found of
              Inl e \<Rightarrow> Inl e
            | Inr (returned_early, (response, response_array), s') \<Rightarrow>
                if returned_early \<or> \<not> normalize_distance
                then Inr ((response, response_array), s')
                else
                  (case normalize_response response s' of
                     Inl e \<Rightarrow> Inl e
                   | Inr (response', s'') \<Rightarrow> Inr ((response', response_array), s''))))"

section \<open>The search methods of the store\<close>

text \<open>
  One round of the loop of \<open>query_by_embeddings\<close>. The call of
  \<open>get_descriptor_response\<close> stands outside the \<open>try\<close>; the \<open>try\<close> covers the reading of
  \<open>response[0]\<close> only, and any exception in it leaves no entities and two log lines.
\<close>

definition strip_invalid :: "pdict \<Rightarrow> pdict" where
  "strip_invalid ent = filter (\<lambda>(k, v). v \<notin> set INVALID_METADATA_VALUE) ent"

definition log_returning_0 :: "'b vdms \<Rightarrow> 'b vdms" where
  "log_returning_0 s =
     logger INFO ''Returning 0 results'' (logger INFO ''Exception[in query_by_embeddings]: {e}'' s)"

definition log_only_returned :: "int \<Rightarrow> int \<Rightarrow> 'b vdms \<Rightarrow> 'b vdms" where
  "log_only_returned num_returned k s =
     (if num_returned \<noteq> k
      then logger INFO ''Only {num_returned} returned. Provide fetch_k > k'' s
      else s)"

definition query_one ::
  "'b client \<Rightarrow> 'b vdms \<Rightarrow> string \<Rightarrow> int \<Rightarrow> int \<Rightarrow> pdict option \<Rightarrow> results option \<Rightarrow> bool \<Rightarrow>
   rat list \<Rightarrow> error + ((response list \<times> blob list) \<times> 'b vdms)" where
  "query_one q s name k fetch_k flt results normalize_distance qemb =
     (case (if k \<le> fetch_k
            then get_descriptor_response q s name k fetch_k flt results (Some qemb)
                   normalize_distance
            else Inr (([], []), s)) of
        Inl e \<Rightarrow> Inl e
      | Inr ((response, response_array), s1) \<Rightarrow>
          (case response of
             [] \<Rightarrow> Inr (([], response_array), log_returning_0 s1)
           | r0 # rs \<Rightarrow>
               (case r0 of
                  FindDescriptorR ents ret \<Rightarrow>
                    (let es = (case ents of None \<Rightarrow> [] | Some es \<Rightarrow> es)
                     in Inr ((FindDescriptorR (map_option (map strip_invalid) ents) ret # rs,
                              response_array),
                             log_only_returned (int (length es)) k s1))
                | _ \<Rightarrow> Inr ((response, response_array),
                             log_returning_0 (log_only_returned 0 k s1)))))"

fun query_loop ::
  "'b client \<Rightarrow> 'b vdms \<Rightarrow> string \<Rightarrow> int \<Rightarrow> int \<Rightarrow> pdict option \<Rightarrow> results option \<Rightarrow> bool \<Rightarrow>
   rat list list \<Rightarrow> error + ((response list \<times> blob list) list \<times> 'b vdms)" where
  "query_loop q s name k fetch_k flt results normalize_distance [] = Inr ([], s)"
| "query_loop q s name k fetch_k flt results normalize_distance (qemb # rest) =
     (case query_one q s name k fetch_k flt results normalize_distance qemb of
        Inl e \<Rightarrow> Inl e
      | Inr (r, s1) \<Rightarrow>
          (case query_loop q s1 name k fetch_k flt results normalize_distance rest of
             Inl e \<Rightarrow> Inl e
           | Inr (all_responses, s2) \<Rightarrow> Inr (r # all_responses, s2)))"

definition query_by_embeddings ::
  "'b client \<Rightarrow> 'b vdms \<Rightarrow> rat list list option \<Rightarrow> string option \<Rightarrow> int \<Rightarrow> int \<Rightarrow>
   pdict option \<Rightarrow> results option \<Rightarrow> bool \<Rightarrow> string list \<Rightarrow>
   error + ((response list \<times> blob list) list \<times> 'b vdms)" where
  "query_by_embeddings q s query_embeddings name k fetch_k flt results normalize_distance include =
     (case check_and_update_properties q s of
        Inl e \<Rightarrow> Inl e
      | Inr s0 \<Rightarrow>
          (let name' = (case name of None \<Rightarrow> collection_name s0 | Some n \<Rightarrow> n)
           in case query_embeddings of
                None \<Rightarrow> Inr ([], s0)
              | Some qembs \<Rightarrow>
                  (let results' =
                         (if results = None \<and> ''metadatas'' \<in> set include
                          then Some \<lparr>res_list = Some (collection_properties s0),
                                     res_blob = Some (''embeddings'' \<in> set include),
                                     res_count = None\<rparr>
                          else results)
                   in query_loop q s0 name' k fetch_k flt results' normalize_distance qembs)))"

subsection \<open>Result projection\<close>

text \<open>
  A \<open>Document\<close> of \<open>langchain_core\<close>: its text, its metadata and its id, which may be
  Python's \<open>None\<close>.
\<close>

record document =
  page_content :: pval
  metadata :: pdict
  doc_id :: "pval option"

definition descriptor2document :: "pdict \<Rightarrow> error + document" where
  "descriptor2document descriptor_entity =
     (let metadata0 =
            filter (\<lambda>(k, v). k \<notin> set INVALID_DOC_METADATA_KEYS \<and> v \<notin> set INVALID_METADATA_VALUE)
              descriptor_entity;
          (d_id, metadata1) =
            (case map_of metadata0 LANGCHAIN_ID_PROPERTY of
               Some v \<Rightarrow> (Some v, AList.delete LANGCHAIN_ID_PROPERTY metadata0)
             | None \<Rightarrow> (None, metadata0))
      in case dict_get descriptor_entity TEXT_PROPERTY of
           Inl e \<Rightarrow> Inl e
         | Inr txt_contents \<Rightarrow>
             Inr \<lparr>page_content = txt_contents, metadata = metadata1, doc_id = d_id\<rparr>)"

text \<open>
  The loop of \<open>results2documents_and_scores\<close>. The variable \<open>d_id\<close> is assigned only
  when the entity carries the identity, and is read in every round: it is unbound
  (\<open>None\<close> here) until its first assignment, and keeps its value afterwards. The loop
  ends at the first exception, which is returned beside what was collected.
\<close>

fun project_loop ::
  "pval option \<Rightarrow> pdict list \<Rightarrow> (document \<times> pyfloat) list \<Rightarrow>
   (document \<times> pyfloat) list \<times> error option" where
  "project_loop d_id [] final_res = (final_res, None)"
| "project_loop d_id (ent # rest) final_res =
     (case ent_distance ent of
        Inl e \<Rightarrow> (final_res, Some e)
      | Inr d \<Rightarrow>
          (let distance = py_round10 d
           in case dict_get ent TEXT_PROPERTY of
                Inl e \<Rightarrow> (final_res, Some e)
              | Inr txt_contents \<Rightarrow>
                  (let props0 =
                         filter (\<lambda>(mkey, mval). mval \<notin> set INVALID_METADATA_VALUE
                                   \<and> mkey \<notin> set INVALID_DOC_METADATA_KEYS) ent;
                       (d_id', props) =
                         (case map_of props0 LANGCHAIN_ID_PROPERTY of
                            Some v \<Rightarrow> (Some v, AList.delete LANGCHAIN_ID_PROPERTY props0)
                          | None \<Rightarrow> (d_id, props0))
                   in case d_id' of
                        None \<Rightarrow> (final_res, Some (UnboundLocalError ''d_id''))
                      | Some i \<Rightarrow>
                          project_loop d_id' rest
                            (final_res @
                               [(\<lparr>page_content = txt_contents, metadata = props,
                                  doc_id = Some i\<rparr>, distance)]))))"

definition warn_no_results :: "'b vdms \<Rightarrow> 'b vdms" where
  "warn_no_results s =
     logger WARNING ''No results returned. Error while parsing results: {e}'' s"

definition results2documents_and_scores ::
  "'b vdms \<Rightarrow> (response list \<times> blob list) list \<Rightarrow> (document \<times> pyfloat) list \<times> 'b vdms" where
  "results2documents_and_scores s results =
     (case results of
        [] \<Rightarrow> ([], warn_no_results s)
      | (responses, blobs) # _ \<Rightarrow>
          (case responses of
             [] \<Rightarrow> ([], warn_no_results s)
           | r0 # _ \<Rightarrow>
               (case r0 of
                  FindDescriptorR ents ret \<Rightarrow>
                    (let descriptor_entities = (case ents of None \<Rightarrow> [] | Some es \<Rightarrow> es)
                     in case project_loop None descriptor_entities [] of
                          (final_res, None) \<Rightarrow> (final_res, s)
                        | (final_res, Some e) \<Rightarrow> (final_res, warn_no_results s))
                | _ \<Rightarrow> ([], warn_no_results s))))"

definition results2documents ::
  "'b vdms \<Rightarrow> (response list \<times> blob list) list \<Rightarrow> document list \<times> 'b vdms" where
  "results2documents s results =
     (case results2documents_and_scores s results of (rs, s') \<Rightarrow> (map fst rs, s'))"

subsection \<open>Similarity search\<close>

text \<open>
  \<open>similarity_search_by_vector\<close> guards the reading of \<open>resp[0]["FindDescriptor"]\<close> with
  \<open>except ValueError\<close>, which catches neither an \<open>IndexError\<close> nor a \<open>KeyError\<close>. Of the
  keyword arguments it hands on, the model keeps \<open>normalize_distance\<close>.
\<close>

fun collect_docs :: "(response list \<times> blob list) list \<Rightarrow> error + document list" where
  "collect_docs [] = Inr []"
| "collect_docs ((resp, _) # rest) =
     (case resp of
        [] \<Rightarrow> Inl IndexError
      | r0 # _ \<Rightarrow>
          (case r0 of
             FindDescriptorR ents ret \<Rightarrow>
               (let descriptor_entities = (case ents of None \<Rightarrow> [] | Some es \<Rightarrow> es)
                in case map_err descriptor2document descriptor_entities of
                     Inl e \<Rightarrow> Inl e
                   | Inr docs \<Rightarrow>
                       (case collect_docs rest of
                          Inl e \<Rightarrow> Inl e
                        | Inr others \<Rightarrow> Inr (docs @ others)))
           | _ \<Rightarrow> Inl (KeyError ''FindDescriptor'')))"

definition similarity_search_by_vector ::
  "'b client \<Rightarrow> 'b vdms \<Rightarrow> rat list \<Rightarrow> int \<Rightarrow> int \<Rightarrow> pdict option \<Rightarrow> bool \<Rightarrow>
   error + (document list \<times> 'b vdms)" where
  "similarity_search_by_vector q s embedding k fetch_k flt normalize_distance =
     (case query_by_embeddings q s (Some [embedding]) None k fetch_k flt None normalize_distance
             [''metadatas''] of
        Inl e \<Rightarrow> Inl e
      | Inr (results, s1) \<Rightarrow>
          (let s2 = logger INFO ''VDMS similarity search took {t} seconds'' s1
           in case collect_docs results of
                Inl e \<Rightarrow> Inl e
              | Inr final_docs \<Rightarrow> Inr (final_docs, s2)))"

text \<open>
  \<open>similarity_search_with_score\<close>, after the query has been embedded (the embedder is a
  collaborator).
\<close>

definition similarity_search_with_score ::
  "'b client \<Rightarrow> 'b vdms \<Rightarrow> rat list \<Rightarrow> int \<Rightarrow> int \<Rightarrow> pdict option \<Rightarrow> bool \<Rightarrow>
   error + ((document \<times> pyfloat) list \<times> 'b vdms)" where
  "similarity_search_with_score q s query_embedding k fetch_k flt normalize_distance =
     (case query_by_embeddings q s (Some [query_embedding]) None k fetch_k flt None
             normalize_distance [''metadatas''] of
        Inl e \<Rightarrow> Inl e
      | Inr (results, s1) \<Rightarrow> Inr (results2documents_and_scores s1 results))"

subsection \<open>Diversity reranking\<close>

text \<open>
  The blob of a candidate read back as its embedding. A blob that does not hold floats
  is not read as one.
\<close>

definition bytes2embedding :: "blob \<Rightarrow> error + rat list" where
  "bytes2embedding b =
     (case b of
        EmbeddingBlob v \<Rightarrow> Inr v
      | _ \<Rightarrow> Inl (ValueError ''buffer size must be a multiple of element size''))"

text \<open>
  The comprehension \<open>[r for i, r in enumerate(candidates) if i in mmr_selected]\<close> that ends
  both searches.
\<close>

definition select_by_index :: "'a list \<Rightarrow> nat list \<Rightarrow> 'a list" where
  "select_by_index candidates mmr_selected =
     map snd (filter (\<lambda>(i, r). i \<in> set mmr_selected) (enumerate 0 candidates))"

text \<open>
  The selection function \<open>maximal_marginal_relevance\<close> is imported from
  \<open>langchain_vdms.utils\<close>; the searches take it as their first argument \<open>mmr\<close>. They do
  not hand their keyword arguments on to \<open>query_by_embeddings\<close>.
\<close>

definition mmr_include :: "string list" where
  "mmr_include = [''metadatas'', ''documents'', ''distances'', ''embeddings'']"

definition max_marginal_relevance_search_by_vector ::
  "(rat list \<Rightarrow> rat list list \<Rightarrow> int \<Rightarrow> rat \<Rightarrow> nat list) \<Rightarrow> 'b client \<Rightarrow> 'b vdms \<Rightarrow>
   rat list \<Rightarrow> int \<Rightarrow> int \<Rightarrow> rat \<Rightarrow> pdict option \<Rightarrow> error + (document list \<times> 'b vdms)" where
  "max_marginal_relevance_search_by_vector mmr q s embedding k fetch_k lambda_mult flt =
     (case query_by_embeddings q s (Some [embedding]) None k fetch_k flt None False mmr_include of
        Inl e \<Rightarrow> Inl e
      | Inr (results, s1) \<Rightarrow>
          (case results of
             [] \<Rightarrow> Inl IndexError
           | (resp, blobs) # _ \<Rightarrow>
               if length blobs = 0 then Inr ([], s1)
               else
                 (case map_err bytes2embedding blobs of
                    Inl e \<Rightarrow> Inl e
                  | Inr embedding_list \<Rightarrow>
                      (let mmr_selected = mmr embedding embedding_list k lambda_mult;
                           s2 = logger INFO ''VDMS similarity search mmr took {t} secs'' s1;
                           (candidates, s3) = results2documents s2 results
                       in Inr (select_by_index candidates mmr_selected, s3)))))"

definition max_marginal_relevance_search_by_vector_with_score ::
  "(rat list \<Rightarrow> rat list list \<Rightarrow> int \<Rightarrow> rat \<Rightarrow> nat list) \<Rightarrow> 'b client \<Rightarrow> 'b vdms \<Rightarrow>
   rat list \<Rightarrow> int \<Rightarrow> int \<Rightarrow> rat \<Rightarrow> pdict option \<Rightarrow>
   error + ((document \<times> pyfloat) list \<times> 'b vdms)" where
  "max_marginal_relevance_search_by_vector_with_score mmr q s embedding k fetch_k lambda_mult flt =
     (case query_by_embeddings q s (Some [embedding]) None k fetch_k flt None False mmr_include of
        Inl e \<Rightarrow> Inl e
      | Inr (results, s1) \<Rightarrow>
          (case results of
             [] \<Rightarrow> Inl IndexError
           | (resp, blobs) # _ \<Rightarrow>
               if length blobs = 0 then Inr ([], s1)
               else
                 (case map_err bytes2embedding blobs of
                    Inl e \<Rightarrow> Inl e
                  | Inr embedding_list \<Rightarrow>
                      (let mmr_selected = mmr embedding embedding_list k lambda_mult;
                           s2 = logger INFO ''VDMS similarity search mmr took {t} secs'' s1;
                           (candidates, s3) = results2documents_and_scores s2 results
                       in Inr (select_by_index candidates mmr_selected, s3)))))"

text \<open>
  Modelled from the spec: \<open>maximal_marginal_relevance\<close> of \<open>langchain_vdms.utils\<close> is not
  among the sources. The specification describes a greedy selection: at each of \<open>k\<close>
  steps the unselected candidate is picked that maximises
  \<open>\<lambda> \<cdot> sim(query, candidate) - (1 - \<lambda>) \<cdot> max sim(candidate, s)\<close> over the selected \<open>s\<close>,
  where the similarity is the inner product and the second term is 0 while nothing is
  selected; ties go to the candidate that comes first.
\<close>

definition inner :: "rat list \<Rightarrow> rat list \<Rightarrow> rat" where
  "inner a b = sum_list (map2 (\<lambda>x y. x * y) a b)"

definition mmr_objective :: "rat \<Rightarrow> rat list \<Rightarrow> rat list list \<Rightarrow> nat list \<Rightarrow> nat \<Rightarrow> rat" where
  "mmr_objective lam qv embs selected i =
     lam * inner qv (embs ! i)
     - (1 - lam) * (if selected = [] then 0
                    else Max (set (map (\<lambda>j. inner (embs ! i) (embs ! j)) selected)))"

fun first_best :: "(nat \<Rightarrow> rat) \<Rightarrow> nat list \<Rightarrow> nat option" where
  "first_best f [] = None"
| "first_best f (i # rest) =
     (case first_best f rest of
        None \<Rightarrow> Some i
      | Some j \<Rightarrow> if f i < f j then Some j else Some i)"

fun mmr_steps :: "nat \<Rightarrow> rat \<Rightarrow> rat list \<Rightarrow> rat list list \<Rightarrow> nat list \<Rightarrow> nat list" where
  "mmr_steps 0 lam qv embs selected = selected"
| "mmr_steps (Suc n) lam qv embs selected =
     (case first_best (mmr_objective lam qv embs selected)
             (filter (\<lambda>i. i \<notin> set selected) [0 ..< length embs]) of
        None \<Rightarrow> selected
      | Some i \<Rightarrow> mmr_steps n lam qv embs (selected @ [i]))"

definition maximal_marginal_relevance ::
  "rat list \<Rightarrow> rat list list \<Rightarrow> int \<Rightarrow> rat \<Rightarrow> nat list" where
  "maximal_marginal_relevance qv embs k lam = mmr_steps (nat k) lam qv embs []"

section \<open>Writing and deleting\<close>

subsection \<open>\<open>add_batch\<close>\<close>

text \<open>
  The loop that builds the batch: the embeddings are concatenated and every item's
  properties are registered. The ids are a list here; every caller in the class passes
  one.
\<close>

fun props_loop ::
  "(pval \<Rightarrow> string) \<Rightarrow> 'b vdms \<Rightarrow> (pdict \<times> rat list \<times> string \<times> string) list \<Rightarrow>
   rat list \<Rightarrow> pdict list \<Rightarrow> rat list \<times> pdict list \<times> 'b vdms" where
  "props_loop py_str s [] extended_emb batch_properties = (extended_emb, batch_properties, s)"
| "props_loop py_str s ((meta, emb, doc, id0) # rest) extended_emb batch_properties =
     (case get_props_from_metadata py_str s (Some doc) (Some meta) (Some id0) of
        (props, s') \<Rightarrow>
          props_loop py_str s' rest (extended_emb @ emb) (batch_properties @ [props]))"

text \<open>
  The recovery loop after \<open>OutOfJournalSpace\<close>: each round slices the blobs and the
  queries and sends them.
\<close>

fun retry_loop ::
  "'b client \<Rightarrow> 'b vdms \<Rightarrow> command list \<Rightarrow> blob list \<Rightarrow> int \<Rightarrow> int \<Rightarrow> int \<Rightarrow> int list \<Rightarrow>
   response list \<Rightarrow> error + (response list \<times> 'b vdms)" where
  "retry_loop q s all_queries all_blobs emb_len new_batch_size old_batch [] response =
     Inr (response, s)"
| "retry_loop q s all_queries all_blobs emb_len new_batch_size old_batch (start_idx # rest)
     response =
     (let end_idx_blob = min (start_idx * emb_len + new_batch_size - 1) (int (length all_blobs));
          blobs = py_slice all_blobs (start_idx * emb_len) end_idx_blob;
          end_idx = min (start_idx + new_batch_size - 1) old_batch;
          queries = py_slice all_queries start_idx end_idx
      in case run_vdms_query q s queries blobs of
           Inl e \<Rightarrow> Inl e
         | Inr ((response', _), s') \<Rightarrow>
             retry_loop q s' all_queries all_blobs emb_len new_batch_size old_batch rest
               response')"

definition status_ids :: "response list \<Rightarrow> string list \<Rightarrow> error + string list" where
  "status_ids response ids =
     (case response of
        [] \<Rightarrow> Inl IndexError
      | r0 # _ \<Rightarrow>
          (case r0 of
             AddDescriptorR status \<Rightarrow> Inr (if status = 0 then ids else [])
           | _ \<Rightarrow> Inl (KeyError ''AddDescriptor'')))"

text \<open>
  The body of the inner \<open>try\<close> of \<open>add_batch\<close>. \<open>emb\<close> is the variable of the loop above,
  unbound when the batch is empty.
\<close>

definition split_and_retry ::
  "'b client \<Rightarrow> 'b vdms \<Rightarrow> command list \<Rightarrow> blob list \<Rightarrow> rat list list \<Rightarrow> response list \<Rightarrow>
   error + (response list \<times> 'b vdms)" where
  "split_and_retry q s all_queries all_blobs embeddings response =
     (let s1 = logger INFO ''OutOfJournalSpace: Splitting batch in half'' s;
          old_batch = int (length all_queries);
          new_batch_size = old_batch div 2
      in if embeddings = [] then Inl (UnboundLocalError ''emb'')
         else
           (let emb_len = int (length (last embeddings))
            in case py_range 0 old_batch new_batch_size of
                 Inl e \<Rightarrow> Inl e
               | Inr idxs \<Rightarrow>
                   retry_loop q s1 all_queries all_blobs emb_len new_batch_size old_batch idxs
                     response))"

definition add_batch ::
  "(pval \<Rightarrow> string) \<Rightarrow> 'b client \<Rightarrow> 'b vdms \<Rightarrow> string \<Rightarrow> string list \<Rightarrow> rat list list \<Rightarrow>
   pdict list option \<Rightarrow> string list \<Rightarrow> error + (string list \<times> 'b vdms)" where
  "add_batch py_str q s name texts embeddings metadatas ids =
     (let metadatas' = (case metadatas of None \<Rightarrow> map (\<lambda>_. []) texts | Some m \<Rightarrow> m)
      in if length texts \<noteq> length embeddings
         then Inl (ValueError ''texts and embeddings expected to be equal length'')
         else if length texts \<noteq> length metadatas'
         then Inl (ValueError ''texts and metadatas expected to be equal length'')
         else if length texts \<noteq> length ids
         then Inl (ValueError ''texts and ids expected to be equal length'')
         else
           (case props_loop py_str s (zip metadatas' (zip embeddings (zip texts ids))) [] [] of
              (extended_emb, batch_properties, s1) \<Rightarrow>
                (let all_blobs = (case embedding2bytes (Some extended_emb) of
                                    None \<Rightarrow> [] | Some b \<Rightarrow> [b]);
                     all_queries = [add_descriptor AddDescriptor name (Some batch_properties)
                                      None None None]
                 in case run_vdms_query q s1 all_queries all_blobs of
                      Inl e \<Rightarrow> Inl e
                    | Inr ((response, _), s2) \<Rightarrow>
                        (case response of
                           [] \<Rightarrow> Inl IndexError
                         | r0 # _ \<Rightarrow>
                             (case r0 of
                                AddDescriptorR status \<Rightarrow>
                                  Inr (if status = 0 then ids else [], s2)
                              | FailedCommandR info \<Rightarrow>
                                  if str_contains ''OutOfJournalSpace'' info then
                                    (case split_and_retry q s2 all_queries all_blobs embeddings
                                            response of
                                       Inl e \<Rightarrow>
                                         Inl (ValueError
                                                (''Lower batch_size to < ''
                                                 @ str_nat (length all_queries) @ '' and rerun''))
                                     | Inr (response', s3) \<Rightarrow>
                                         (case status_ids response' ids of
                                            Inl e \<Rightarrow> Inl e
                                          | Inr r \<Rightarrow> Inr (r, s3)))
                                  else
                                    Inr ([], logger INFO ''Returning []''
                                               (logger INFO ''Exception[in add_batch]: {e}'' s2))
                              | _ \<Rightarrow> Inl (KeyError ''info''))))))"

subsection \<open>\<open>delete\<close>\<close>

text \<open>
  \<open>batch_delete\<close> seeds its answer with a \<open>FindDescriptor\<close> entry and extends the
  entities of that entry with those of every \<open>FindDescriptor\<close> answer.
\<close>

fun extend_entities :: "pdict list \<Rightarrow> response list \<Rightarrow> error + pdict list" where
  "extend_entities acc [] = Inr acc"
| "extend_entities acc (res # rest) =
     (case res of
        FindDescriptorR e _ \<Rightarrow>
          (case e of
             None \<Rightarrow> Inl (KeyError ''entities'')
           | Some es \<Rightarrow> extend_entities (acc @ es) rest)
      | _ \<Rightarrow> extend_entities acc rest)"

definition id_constraint :: "string \<Rightarrow> pdict \<Rightarrow> pdict" where
  "id_constraint i constraints =
     foldl (\<lambda>d (k, v). AList.update k v d)
       [(LANGCHAIN_ID_PROPERTY, PList [PStr ''=='', PStr i])] constraints"

text \<open>
  The loop over the windows of ids; the flag says that it left through
  \<open>return new_response\<close>, before \<open>returned\<close> is recomputed.
\<close>

fun delete_batches ::
  "'b client \<Rightarrow> 'b vdms \<Rightarrow> string \<Rightarrow> pdict \<Rightarrow> string list \<Rightarrow> int \<Rightarrow> int list \<Rightarrow> pdict list \<Rightarrow>
   error + (bool \<times> pdict list \<times> 'b vdms)" where
  "delete_batches q s name constraints ids batch_size [] entities = Inr (False, entities, s)"
| "delete_batches q s name constraints ids batch_size (start_idx # rest) entities =
     (let end_idx = min (start_idx + batch_size) (int (length ids));
          batch_ids = py_slice ids start_idx end_idx;
          all_queries =
            map (\<lambda>i. add_descriptor FindDescriptor name None None (Some (id_constraint i constraints))
                        (Some \<lparr>res_list = Some (collection_properties s), res_blob = None,
                               res_count = None\<rparr>)) batch_ids
      in if all_queries = [] then Inr (True, entities, s)
         else
           (case run_vdms_query q s all_queries [] of
              Inl e \<Rightarrow> Inl e
            | Inr ((response, _), s') \<Rightarrow>
                (case extend_entities entities response of
                   Inl e \<Rightarrow> Inl e
                 | Inr entities' \<Rightarrow>
                     delete_batches q s' name constraints ids batch_size rest entities')))"

definition batch_delete ::
  "'b client \<Rightarrow> 'b vdms \<Rightarrow> string \<Rightarrow> pdict \<Rightarrow> string list option \<Rightarrow> int \<Rightarrow>
   error + (response list \<times> 'b vdms)" where
  "batch_delete q s name constraints ids batch_size =
     (case ids of
        None \<Rightarrow>
          (let query = add_descriptor FindDescriptor name None None (Some constraints)
                         (Some \<lparr>res_list = Some (collection_properties s), res_blob = None,
                                res_count = None\<rparr>)
           in case run_vdms_query q s [query] [] of
                Inl e \<Rightarrow> Inl e
              | Inr ((response, _), s1) \<Rightarrow>
                  (case extend_entities [] response of
                     Inl e \<Rightarrow> Inl e
                   | Inr entities \<Rightarrow>
                       Inr ([FindDescriptorR (Some entities) (Some (int (length entities)))], s1)))
      | Some ids' \<Rightarrow>
          (case py_range 0 (int (length ids')) batch_size of
             Inl e \<Rightarrow> Inl e
           | Inr idxs \<Rightarrow>
               (case delete_batches q s name constraints ids' batch_size idxs [] of
                  Inl e \<Rightarrow> Inl e
                | Inr (early, entities, s1) \<Rightarrow>
                    Inr ([FindDescriptorR (Some entities)
                            (Some (if early then 0 else int (length entities)))], s1))))"

text \<open>
  \<open>delete\<close> with its keyword arguments \<open>collection_name\<close>, \<open>constraints\<close> and
  \<open>batch_size\<close>, each of which may be absent.
\<close>

definition delete ::
  "'b client \<Rightarrow> 'b vdms \<Rightarrow> string list option \<Rightarrow> string option \<Rightarrow> pval option \<Rightarrow> int option \<Rightarrow>
   error + (bool \<times> 'b vdms)" where
  "delete q s ids collection_name_kw constraints_kw batch_size_kw =
     (let name = (case collection_name_kw of None \<Rightarrow> collection_name s | Some n \<Rightarrow> n);
          deletion = PList [PStr ''=='', PNum (Fin 1)];
          constraints =
            (case constraints_kw of
               Some (PDict c) \<Rightarrow> AList.update ''_deletion'' deletion c
             | _ \<Rightarrow> [(''_deletion'', deletion)]);
          batch_size = (case batch_size_kw of None \<Rightarrow> DEFAULT_INSERT_BATCH_SIZE | Some b \<Rightarrow> b)
      in case batch_delete q s name constraints ids batch_size of
           Inl e \<Rightarrow> Inl e
         | Inr (response, s1) \<Rightarrow>
             (case run_vdms_query q s1 [FindDescriptorSet name True] [] of
                Inl e \<Rightarrow> Inl e
              | Inr (_, s2) \<Rightarrow>
                  (case response of
                     [] \<Rightarrow> Inl IndexError
                   | r0 # _ \<Rightarrow>
                       Inr ((case r0 of FindDescriptorR _ _ \<Rightarrow> True | _ \<Rightarrow> False), s2))))"

section \<open>Notions used in the statements\<close>

text \<open>
  The part of a raw record that may become metadata, and what it means for a document
  to be the projection of a record.
\<close>

definition kept :: "pdict \<Rightarrow> pdict" where
  "kept ent =
     filter (\<lambda>(k, v). k \<notin> set INVALID_DOC_METADATA_KEYS \<and> v \<notin> set INVALID_METADATA_VALUE) ent"

definition projects :: "pdict \<Rightarrow> document \<Rightarrow> bool" where
  "projects ent doc \<longleftrightarrow>
     metadata doc = (case map_of (kept ent) LANGCHAIN_ID_PROPERTY of
                       Some v \<Rightarrow> AList.delete LANGCHAIN_ID_PROPERTY (kept ent)
                     | None \<Rightarrow> kept ent)
     \<and> (\<forall>v. map_of (kept ent) LANGCHAIN_ID_PROPERTY = Some v \<longrightarrow> doc_id doc = Some v)"

text \<open>The entities that \<open>results2documents_and_scores\<close> reads from its argument.\<close>

definition first_entities :: "(response list \<times> blob list) list \<Rightarrow> pdict list" where
  "first_entities results =
     (case results of
        (FindDescriptorR (Some es) _ # _, _) # _ \<Rightarrow> es
      | _ \<Rightarrow> [])"

text \<open>
  The identities carried by a list of entities, and the test of step (3): the entity's
  identity is one of the identities of interest.
\<close>

definition ids_of :: "pdict list \<Rightarrow> pval list" where
  "ids_of es = List.map_filter (\<lambda>ent. map_of ent LANGCHAIN_ID_PROPERTY) es"

definition id_among :: "pval list \<Rightarrow> pdict \<Rightarrow> bool" where
  "id_among ids ent =
     (case map_of ent LANGCHAIN_ID_PROPERTY of Some i \<Rightarrow> i \<in> set ids | None \<Rightarrow> False)"

text \<open>
  A \<open>FindDescriptor\<close> answer as \<open>run_vdms_query\<close> leaves it: it has its entities, each
  with the identity property, and \<open>returned\<close> is their number.
\<close>

definition identified :: "response \<Rightarrow> bool" where
  "identified r =
     (case r of
        FindDescriptorR e n \<Rightarrow>
          (case e of
             None \<Rightarrow> False
           | Some es \<Rightarrow>
               n = Some (int (length es))
               \<and> list_all (\<lambda>ent. dict_has ent LANGCHAIN_ID_PROPERTY) es)
      | _ \<Rightarrow> True)"

text \<open>
  A server that answers every non-empty list of commands with at least one answer, as
  the protocol has it.
\<close>

definition answers_every_query :: "'b client \<Rightarrow> bool" where
  "answers_every_query q \<longleftrightarrow> (\<forall>b qs bs. qs \<noteq> [] \<longrightarrow> fst (fst (q b qs bs)) \<noteq> [])"

text \<open>
  The normalisation as the specification words it, for comparison: every distance \<open>d\<close> of
  the finite ones becomes \<open>(d - min) / (max - min)\<close>.
\<close>

definition spec_min_max_normalize :: "rat list \<Rightarrow> rat list" where
  "spec_min_max_normalize ds =
     map (\<lambda>d. (d - Min (set ds)) / (Max (set ds) - Min (set ds))) ds"

text \<open>The finite values among a list of distances.\<close>

fun finite_values :: "pyfloat list \<Rightarrow> rat list" where
  "finite_values [] = []"
| "finite_values (Fin x # ds) = x # finite_values ds"
| "finite_values (_ # ds) = finite_values ds"

section \<open>Example stores and servers\<close>

text \<open>
  A store on a fresh collection: the cache holds the default properties, sorted. The
  silent server keeps no registry and answers every query with one uninspected answer
  and no blob.
\<close>

definition fresh_store :: "unit vdms" where
  "fresh_store =
     \<lparr>backend = (), collection_name = DEFAULT_COLLECTION_NAME,
      collection_properties = sort DEFAULT_PROPERTIES,
      updated_properties_flag = False, logged = []\<rparr>"

definition silent_server :: "unit client" where
  "silent_server b qs bs = (([OtherR], []), b)"

text \<open>A result entity with an identity, a text and a distance.\<close>

definition hit :: "string \<Rightarrow> string \<Rightarrow> rat \<Rightarrow> pdict" where
  "hit i txt d = [(''_distance'', PNum (Fin d)), (LANGCHAIN_ID_PROPERTY, PStr i), (TEXT_PROPERTY, PStr txt)]"

text \<open>A server on which every command fails.\<close>

definition failing_server :: "unit client" where
  "failing_server b qs bs = (([FailedCommandR ''Error in query''], []), b)"

text \<open>
  A server that answers a \<open>FindDescriptor\<close> query carrying \<open>k_neighbors\<close> with the
  entities \<open>neighbours\<close>, and one without it with the entities \<open>matched\<close>.
\<close>

definition canned_server :: "pdict list \<Rightarrow> pdict list \<Rightarrow> unit client" where
  "canned_server matched neighbours b qs bs =
     (case qs of
        [Descriptor FindDescriptor c] \<Rightarrow>
          (case cmd_k_neighbors c of
             None \<Rightarrow> (([FindDescriptorR (Some matched) (Some (int (length matched)))], []), b)
           | Some _ \<Rightarrow> (([FindDescriptorR (Some neighbours) (Some (int (length neighbours)))], []), b))
      | _ \<Rightarrow> (([OtherR], []), b))"

text \<open>
  What the server returns for a document stored without text: the \<open>content\<close> property
  is reported as missing.
\<close>

definition hit_without_text :: "string \<Rightarrow> rat \<Rightarrow> pdict" where
  "hit_without_text i d =
     [(''_distance'', PNum (Fin d)), (LANGCHAIN_ID_PROPERTY, PStr i),
      (TEXT_PROPERTY, PStr ''Missing property'')]"

text \<open>
  A raw record with reserved keys and sentinel values among its properties.
\<close>

definition raw_record :: pdict where
  "raw_record =
     [(''_distance'', PNum (Fin (1 / 2))), (LANGCHAIN_ID_PROPERTY, PStr ''2''),
      (TEXT_PROPERTY, PStr ''thud''), (''bar'', PStr ''baz''), (''blob'', PStr ''AAAA''),
      (''colour'', PStr ''Missing property''), (''size'', PNone), (''extra'', PDict [])]"

text \<open>Five neighbours in distance order, and a filter on one property.\<close>

definition five_hits :: "pdict list" where
  "five_hits =
     [hit ''1'' ''one'' (1 / 10), hit ''2'' ''two'' (1 / 5), hit ''3'' ''three'' (3 / 10),
      hit ''4'' ''four'' (2 / 5), hit ''5'' ''five'' (1 / 2)]"

definition bar_is_baz :: pdict where
  "bar_is_baz = [(''bar'', PList [PStr ''=='', PStr ''baz''])]"

text \<open>A server whose journal is full: every command fails with that message.\<close>

definition journal_full_server :: "unit client" where
  "journal_full_server b qs bs = (([FailedCommandR ''OutOfJournalSpace''], []), b)"

text \<open>
  A server for the searches that ask for embeddings: it answers the neighbour query
  with three candidates, in distance order from the query \<open>(1, 1)\<close>, and their
  embeddings. Ordering the selection of \<open>maximal_marginal_relevance\<close> gives a second
  selection function with the same selected set.
\<close>

definition three_embeddings :: "rat list list" where
  "three_embeddings = [[1, 1], [1, 1 / 2], [0, 1]]"

definition three_hits :: "pdict list" where
  "three_hits = [hit ''a'' ''first'' 0, hit ''b'' ''second'' (1 / 4), hit ''c'' ''third'' 1]"

definition embedding_server :: "unit client" where
  "embedding_server b qs bs =
     (([FindDescriptorR (Some three_hits) (Some 3)], map EmbeddingBlob three_embeddings), b)"

definition sorted_selection :: "rat list \<Rightarrow> rat list list \<Rightarrow> int \<Rightarrow> rat \<Rightarrow> nat list" where
  "sorted_selection qv embs k lam = sort (maximal_marginal_relevance qv embs k lam)"

text \<open>
  A second server of the same kind, whose farthest candidate has the largest inner
  product with the query \<open>(1, 1)\<close>, so that the greedy selection starts from the last
  candidate. The searches cut the candidates to \<open>k\<close> before they select among them;
  \<open>one_pick_short\<close> is the selection that stops one pick before \<open>k\<close>, and so leaves a
  candidate out.
\<close>

definition far_embeddings :: "rat list list" where
  "far_embeddings = [[1, 1], [0, 1], [2, 2]]"

definition far_hits :: "pdict list" where
  "far_hits = [hit ''a'' ''first'' 0, hit ''b'' ''second'' 1, hit ''c'' ''third'' 2]"

definition far_server :: "unit client" where
  "far_server b qs bs =
     (([FindDescriptorR (Some far_hits) (Some 3)], map EmbeddingBlob far_embeddings), b)"

definition one_pick_short :: "rat list \<Rightarrow> rat list list \<Rightarrow> int \<Rightarrow> rat \<Rightarrow> nat list" where
  "one_pick_short qv embs k lam = maximal_marginal_relevance qv embs (k - 1) lam"

text \<open>A server that answers every command list with one answer per command.\<close>

definition echo_server :: "unit client" where
  "echo_server b qs bs = ((map (\<lambda>_. FindDescriptorR (Some [hit ''1'' ''foo'' 0]) (Some 1)) qs, []), b)"

text \<open>The document that projection makes of \<open>hit i txt d\<close>.\<close>

definition doc_of :: "string \<Rightarrow> string \<Rightarrow> document" where
  "doc_of i txt = \<lparr>page_content = PStr txt, metadata = [], doc_id = Some (PStr i)\<rparr>"

text \<open>Three neighbours at the distances 0.1, 0.3 and 0.5.\<close>

definition tenths_hits :: "pdict list" where
  "tenths_hits =
     [hit ''1'' ''foo'' (1 / 10), hit ''2'' ''bar'' (3 / 10), hit ''3'' ''baz'' (1 / 2)]"

text \<open>
  A server that answers the filter query with the entities \<open>matched\<close> and on which the
  neighbour query fails.
\<close>

definition neighbour_failing_server :: "pdict list \<Rightarrow> unit client" where
  "neighbour_failing_server matched b qs bs =
     (case qs of
        [Descriptor FindDescriptor c] \<Rightarrow>
          (case cmd_k_neighbors c of
             None \<Rightarrow> (([FindDescriptorR (Some matched) (Some (int (length matched)))], []), b)
           | Some _ \<Rightarrow> (([FailedCommandR ''Error in query''], []), b))
      | _ \<Rightarrow> (([OtherR], []), b))"

section \<open>Verified properties\<close>

subsection \<open>What \<open>run_vdms_query\<close> returns\<close>

lemma id_required_identified: "identified (id_required r)"
  by (cases r) (auto simp: id_required_def identified_def Let_def list_all_iff)

lemma run_vdms_query_identified:
  "run_vdms_query q s qs bs = Inr ((r, a), s') \<Longrightarrow> list_all identified r"
  by (auto simp: run_vdms_query_def check_valid_response_def list_all_iff id_required_identified
      split: prod.splits if_splits)

subsection \<open>The property registry\<close>

lemma set_register_keys: "set (register_keys cp ks) = set cp \<union> set ks"
  by (induction ks arbitrary: cp) auto

lemma distinct_register_keys: "distinct cp \<Longrightarrow> distinct (register_keys cp ks)"
  by (induction ks arbitrary: cp) auto

lemma register_keys_known: "set ks \<subseteq> set cp \<Longrightarrow> register_keys cp ks = cp"
  by (induction ks arbitrary: cp) auto

lemma known_after:
  "collection_properties (snd (get_props_from_metadata f s d m i))
   = sort (register_keys (collection_properties s) (map fst (fst (get_props_from_metadata f s d m i))))"
  by (simp add: get_props_from_metadata_def Let_def)

lemma known_distinct:
  "distinct (collection_properties s) \<Longrightarrow>
   distinct (collection_properties (snd (get_props_from_metadata f s d m i)))"
  by (simp add: known_after distinct_register_keys)

lemma known_sorted_union:
  assumes "distinct (collection_properties s)"
  shows "collection_properties (snd (get_props_from_metadata f s d m i))
   = sorted_list_of_set (set (collection_properties s) \<union> fst ` set (fst (get_props_from_metadata f s d m i)))"
proof -
  let ?ks = "map fst (fst (get_props_from_metadata f s d m i))"
  let ?r = "register_keys (collection_properties s) ?ks"
  have "distinct ?r" using assms by (rule distinct_register_keys)
  then have "sort ?r = sorted_list_of_set (set ?r)"
    by (simp add: sorted_list_of_set_sort_remdups distinct_remdups_id)
  then show ?thesis
    by (simp add: known_after set_register_keys)
qed

lemma register_noop:
  assumes "sorted (collection_properties s)"
    and "fst ` set (fst (get_props_from_metadata f s d m i)) \<subseteq> set (collection_properties s)"
  shows "snd (get_props_from_metadata f s d m i) = s"
proof -
  have "snd (get_props_from_metadata f s d m i)
        = s\<lparr>collection_properties := collection_properties (snd (get_props_from_metadata f s d m i))\<rparr>"
    by (simp add: get_props_from_metadata_def Let_def)
  moreover have "collection_properties (snd (get_props_from_metadata f s d m i)) = collection_properties s"
    using assms by (simp add: known_after register_keys_known sort_key_id_if_sorted)
  ultimately show ?thesis by simp
qed

lemma get_properties_state:
  "get_properties q s name u d = Inr (pp, s1) \<Longrightarrow>
   s1 = s\<lparr>backend := snd (q (backend s) [find_property_entity name u d] [])\<rparr>"
  by (auto simp: get_properties_def run_vdms_query_def Let_def
      split: prod.splits sum.splits list.splits)

lemma push_noop:
  assumes "get_properties q s name False False = Inr (pp, s1)"
    and "set (collection_properties s) \<subseteq> set pp"
  shows "push_update_properties q s name = Inr s1"
proof -
  have "collection_properties s1 = collection_properties s"
    using get_properties_state [OF assms(1)] by simp
  then have "filter (\<lambda>p. p \<notin> set pp) (remdups (collection_properties s1)) = []"
    using assms(2) by (auto simp: filter_empty_conv)
  then show ?thesis
    using assms(1) by (simp add: push_update_properties_def)
qed

lemma sort_default_properties:
  "sort DEFAULT_PROPERTIES = [''_distance'', ''content'', ''langchain_id'']"
  by (simp add: DEFAULT_PROPERTIES_def TEXT_PROPERTY_def LANGCHAIN_ID_PROPERTY_def)

lemma fresh_store_known:
  "collection_properties fresh_store = [''_distance'', ''content'', ''langchain_id'']"
  by (simp add: fresh_store_def sort_default_properties)

text \<open>
  Claim C9, as amended. The cached property names are kept sorted by every registration,
  and no registration removes a name.
  When the cache holds no name twice, registering the properties of one document and then
  those of another leaves the sorted list of the union of the names known before
  and the two property sets: the defaults and anything read from the server stay in.
  Registering names that are all known already leaves a sorted cache, and the whole store,
  unchanged. When the server's registry covers the cache, \<open>push_update_properties\<close>
  issues the find query alone and no replace.
\<close>

theorem known_properties_sorted_union:
  fixes s :: "'b vdms"
  shows
  "sorted (collection_properties (snd (get_props_from_metadata f s d1 m1 i1)))
   \<and> set (collection_properties s)
       \<subseteq> set (collection_properties (snd (get_props_from_metadata f s d1 m1 i1)))
   \<and> (distinct (collection_properties s) \<longrightarrow>
        collection_properties
          (snd (get_props_from_metadata f (snd (get_props_from_metadata f s d1 m1 i1)) d2 m2 i2))
        = sorted_list_of_set
            (set (collection_properties s)
             \<union> fst ` set (fst (get_props_from_metadata f s d1 m1 i1))
             \<union> fst ` set (fst (get_props_from_metadata f
                                  (snd (get_props_from_metadata f s d1 m1 i1)) d2 m2 i2))))
   \<and> (sorted (collection_properties s)
        \<and> fst ` set (fst (get_props_from_metadata f s d1 m1 i1)) \<subseteq> set (collection_properties s)
        \<longrightarrow> snd (get_props_from_metadata f s d1 m1 i1) = s)
   \<and> (\<forall>pp s1. get_properties q s name False False = Inr (pp, s1)
          \<and> set (collection_properties s) \<subseteq> set pp
        \<longrightarrow> push_update_properties q s name = Inr s1
            \<and> s1 = s\<lparr>backend := snd (q (backend s) [find_property_entity name False False] [])\<rparr>)"
proof (intro conjI impI allI)
  show "sorted (collection_properties (snd (get_props_from_metadata f s d1 m1 i1)))"
    by (simp add: known_after)
next
  show "set (collection_properties s)
        \<subseteq> set (collection_properties (snd (get_props_from_metadata f s d1 m1 i1)))"
    by (simp add: known_after set_register_keys)
next
  assume d: "distinct (collection_properties s)"
  let ?s1 = "snd (get_props_from_metadata f s d1 m1 i1)"
  have "distinct (collection_properties ?s1)" using d by (rule known_distinct)
  from known_sorted_union [OF this, of f d2 m2 i2] known_sorted_union [OF d, of f d1 m1 i1]
  show "collection_properties (snd (get_props_from_metadata f ?s1 d2 m2 i2))
        = sorted_list_of_set
            (set (collection_properties s)
             \<union> fst ` set (fst (get_props_from_metadata f s d1 m1 i1))
             \<union> fst ` set (fst (get_props_from_metadata f ?s1 d2 m2 i2)))"
    by simp
next
  assume "sorted (collection_properties s)
        \<and> fst ` set (fst (get_props_from_metadata f s d1 m1 i1)) \<subseteq> set (collection_properties s)"
  then show "snd (get_props_from_metadata f s d1 m1 i1) = s"
    by (simp add: register_noop)
next
  fix pp s1
  assume a: "get_properties q s name False False = Inr (pp, s1)
          \<and> set (collection_properties s) \<subseteq> set pp"
  then show "push_update_properties q s name = Inr s1"
    by (simp add: push_noop)
  from a show "s1 = s\<lparr>backend := snd (q (backend s) [find_property_entity name False False] [])\<rparr>"
    by (simp add: get_properties_state)
qed


text \<open>
  On a fresh collection the defaults are known from the start: after registering the
  property sets \<open>{a}\<close> and \<open>{b}\<close> the cache is not the sorted union of the two.
\<close>

theorem known_properties_counterexample:
  "collection_properties
     (snd (get_props_from_metadata (\<lambda>_. [])
        (snd (get_props_from_metadata (\<lambda>_. []) fresh_store
           None (Some [(''a'', PNum (Fin 1))]) None))
        None (Some [(''b'', PNum (Fin 2))]) None))
   = [''_distance'', ''a'', ''b'', ''content'', ''langchain_id'']
   \<and> [''_distance'', ''a'', ''b'', ''content'', ''langchain_id'']
     \<noteq> sorted_list_of_set
         (fst ` set (fst (get_props_from_metadata (\<lambda>_. []) fresh_store
                      None (Some [(''a'', PNum (Fin 1))]) None))
          \<union> fst ` set (fst (get_props_from_metadata (\<lambda>_. [])
                      (snd (get_props_from_metadata (\<lambda>_. []) fresh_store
                         None (Some [(''a'', PNum (Fin 1))]) None))
                      None (Some [(''b'', PNum (Fin 2))]) None)))"
proof -
  have p: "fst ` set (fst (get_props_from_metadata (\<lambda>_. []) fresh_store
                      None (Some [(''a'', PNum (Fin 1))]) None))
          \<union> fst ` set (fst (get_props_from_metadata (\<lambda>_. [])
                      (snd (get_props_from_metadata (\<lambda>_. []) fresh_store
                         None (Some [(''a'', PNum (Fin 1))]) None))
                      None (Some [(''b'', PNum (Fin 2))]) None)) = {''a'', ''b''}"
    by (auto simp: get_props_from_metadata_def dict_has_def LANGCHAIN_ID_PROPERTY_def)
  have "length (sorted_list_of_set {''a'', ''b''}) = 2"
    by simp
  then have "[''_distance'', ''a'', ''b'', ''content'', ''langchain_id'']
             \<noteq> sorted_list_of_set {''a'', ''b''}"
    by auto
  moreover have "collection_properties
     (snd (get_props_from_metadata (\<lambda>_. [])
        (snd (get_props_from_metadata (\<lambda>_. []) fresh_store
           None (Some [(''a'', PNum (Fin 1))]) None))
        None (Some [(''b'', PNum (Fin 2))]) None))
   = [''_distance'', ''a'', ''b'', ''content'', ''langchain_id'']"
    by (simp add: get_props_from_metadata_def dict_has_def LANGCHAIN_ID_PROPERTY_def
        fresh_store_known)
  ultimately show ?thesis
    unfolding p by blast
qed

theorem known_properties_sorted_union_witness:
  "distinct (collection_properties fresh_store)
   \<and> collection_properties
       (snd (get_props_from_metadata (\<lambda>_. [])
          (snd (get_props_from_metadata (\<lambda>_. []) fresh_store
             (Some ''foo'') None (Some ''1'')))
          (Some ''thud'') (Some [(''bar'', PStr ''baz'')]) (Some ''2'')))
     = [''_distance'', ''bar'', ''content'', ''langchain_id'']
   \<and> snd (get_props_from_metadata (\<lambda>_. []) fresh_store (Some ''foo'') None (Some ''1''))
     = fresh_store
   \<and> push_update_properties silent_server fresh_store ''langchain'' = Inr fresh_store"
proof -
  have h1: "distinct (collection_properties fresh_store)"
    by (simp add: fresh_store_known)
  have p1: "fst (get_props_from_metadata (\<lambda>_. []) fresh_store (Some ''foo'') None (Some ''1''))
            = [(''langchain_id'', PStr ''1''), (''content'', PStr ''foo'')]"
    by (simp add: get_props_from_metadata_def LANGCHAIN_ID_PROPERTY_def)
  have h2: "sorted (collection_properties fresh_store)
        \<and> fst ` set (fst (get_props_from_metadata (\<lambda>_. []) fresh_store
                           (Some ''foo'') None (Some ''1'')))
          \<subseteq> set (collection_properties fresh_store)"
    by (simp add: p1 fresh_store_known)
  have h3: "get_properties silent_server fresh_store ''langchain'' False False
              = Inr (sort DEFAULT_PROPERTIES, fresh_store)
          \<and> set (collection_properties fresh_store) \<subseteq> set (sort DEFAULT_PROPERTIES)"
    by (simp add: get_properties_def run_vdms_query_def check_valid_response_def
        id_required_def silent_server_def fresh_store_def)
  have p2: "fst (get_props_from_metadata (\<lambda>_. [])
              (snd (get_props_from_metadata (\<lambda>_. []) fresh_store (Some ''foo'') None (Some ''1'')))
              (Some ''thud'') (Some [(''bar'', PStr ''baz'')]) (Some ''2''))
            = [(''langchain_id'', PStr ''2''), (''bar'', PStr ''baz''), (''content'', PStr ''thud'')]"
    by (simp add: get_props_from_metadata_def LANGCHAIN_ID_PROPERTY_def dict_has_def)
  have u: "sorted_list_of_set
            (set (collection_properties fresh_store)
             \<union> fst ` set (fst (get_props_from_metadata (\<lambda>_. []) fresh_store
                                (Some ''foo'') None (Some ''1'')))
             \<union> fst ` set (fst (get_props_from_metadata (\<lambda>_. [])
                  (snd (get_props_from_metadata (\<lambda>_. []) fresh_store
                          (Some ''foo'') None (Some ''1'')))
                  (Some ''thud'') (Some [(''bar'', PStr ''baz'')]) (Some ''2''))))
           = [''_distance'', ''bar'', ''content'', ''langchain_id'']"
  proof -
    have "set (collection_properties fresh_store)
             \<union> fst ` set (fst (get_props_from_metadata (\<lambda>_. []) fresh_store
                                (Some ''foo'') None (Some ''1'')))
             \<union> fst ` set (fst (get_props_from_metadata (\<lambda>_. [])
                  (snd (get_props_from_metadata (\<lambda>_. []) fresh_store
                          (Some ''foo'') None (Some ''1'')))
                  (Some ''thud'') (Some [(''bar'', PStr ''baz'')]) (Some ''2'')))
          = set [''_distance'', ''bar'', ''content'', ''langchain_id'']"
      unfolding p1 p2 fresh_store_known by auto
    then show ?thesis
      by (simp only: sorted_list_of_set_sort_remdups) simp
  qed
  from known_properties_sorted_union
         [where s = fresh_store and f = "\<lambda>_. []" and ?d1.0 = "Some ''foo''" and ?m1.0 = None
            and ?i1.0 = "Some ''1''" and ?d2.0 = "Some ''thud''"
            and ?m2.0 = "Some [(''bar'', PStr ''baz'')]" and ?i2.0 = "Some ''2''"
            and q = silent_server and name = "''langchain''"]
  show ?thesis
    using h1 h2 h3 u by auto
qed

subsection \<open>Distance normalisation\<close>

lemma foldl_max_fin:
  "foldl (\<lambda>m y. if fgt y m then y else m) (Fin a) (map Fin xs) = Fin (Max (insert a (set xs)))"
proof (induction xs arbitrary: a)
  case Nil
  then show ?case by simp
next
  case (Cons x xs)
  have "Max (insert (max a x) (set xs)) = Max (insert a (insert x (set xs)))"
    by (cases "set xs = {}") (simp_all add: max.assoc)
  then show ?case
    using Cons.IH [of "if a < x then x else a"] by (auto simp: max_def)
qed

lemma py_max_fin:
  "xs \<noteq> [] \<Longrightarrow> py_max (map Fin xs) = Inr (Fin (Max (set xs)))"
  by (cases xs) (simp_all add: py_max_def foldl_max_fin)

lemma filter_not_inf:
  "\<forall>d \<in> set ds. d = PInf \<or> (\<exists>x. d = Fin x) \<Longrightarrow>
   filter (\<lambda>d. d \<noteq> PInf) ds = map Fin (finite_values ds)"
  by (induction ds rule: finite_values.induct) auto

lemma normalize_loop_regular:
  assumes "map_err ent_distance es = Inr ds"
    and "\<forall>d \<in> set ds. d = PInf \<or> (\<exists>x. d = Fin x)"
    and "m \<noteq> 0"
  shows "normalize_loop (Fin 0) (Fin m) es s =
     (map2 (\<lambda>ent d. AList.update ''_distance''
              (PNum (case d of Fin x \<Rightarrow> Fin (x / m) | _ \<Rightarrow> if 0 < m then PInf else NInf)) ent)
         es ds, s)"
  using assms
proof (induction es arbitrary: ds)
  case Nil
  then show ?case by simp
next
  case (Cons ent es)
  then obtain d ds' where ds: "ds = d # ds'" and d: "ent_distance ent = Inr d"
    and r: "map_err ent_distance es = Inr ds'"
    by (auto split: sum.splits)
  from Cons.prems(2) ds have "d = PInf \<or> (\<exists>x. d = Fin x)" by simp
  then have "fdiv (fsub d (Fin 0)) (fsub (Fin m) (Fin 0))
     = Inr (case d of Fin x \<Rightarrow> Fin (x / m) | _ \<Rightarrow> if 0 < m then PInf else NInf)"
    using \<open>m \<noteq> 0\<close> by auto
  moreover have "normalize_loop (Fin 0) (Fin m) es s =
     (map2 (\<lambda>ent d. AList.update ''_distance''
              (PNum (case d of Fin x \<Rightarrow> Fin (x / m) | _ \<Rightarrow> if 0 < m then PInf else NInf)) ent)
         es ds', s)"
    using Cons.IH [OF r] Cons.prems(2,3) ds by simp
  ultimately show ?case
    by (simp add: d ds)
qed

lemma hit_distance: "ent_distance (hit i t d) = Inr (Fin d)"
  by (simp add: hit_def ent_distance_def dict_get_def)

lemma normalize_response_regular:
  assumes "map_err ent_distance es = Inr ds"
    and "\<forall>d \<in> set ds. d = PInf \<or> (\<exists>x. d = Fin x)"
    and "finite_values ds \<noteq> []"
    and "Max (set (finite_values ds)) \<noteq> 0"
  shows "normalize_response (FindDescriptorR (Some es) ret # rs) s =
     Inr (FindDescriptorR
            (Some (map2 (\<lambda>ent d. AList.update ''_distance''
                     (PNum (case d of
                              Fin x \<Rightarrow> Fin (x / Max (set (finite_values ds)))
                            | _ \<Rightarrow> if 0 < Max (set (finite_values ds)) then PInf else NInf)) ent)
                   es ds)) ret # rs, s)"
proof -
  have "py_max (filter (\<lambda>d. d \<noteq> PInf) ds) = Inr (Fin (Max (set (finite_values ds))))"
    using assms(2,3) by (simp add: filter_not_inf py_max_fin)
  then show ?thesis
    using assms(1) normalize_loop_regular [OF assms(1,2,4), of s]
    by (simp add: normalize_response_def)
qed

lemma constrained_top_k_early:
  "constrained_top_k q s name k fk res bs ids = Inr (True, (r, a), s') \<Longrightarrow> r = [] \<and> a = []"
  by (auto simp: constrained_top_k_def Let_def
      split: sum.splits prod.splits list.splits response.splits option.splits if_splits)

lemma find_constrained_early:
  "find_constrained q s name k fk c res bs = Inr (True, (r, a), s') \<Longrightarrow> r = [] \<and> a = []"
  by (auto simp: find_constrained_def Let_def dest: constrained_top_k_early
      split: sum.splits prod.splits list.splits response.splits option.splits if_splits)

lemma normalization_follows_search:
  assumes "get_descriptor_response q s name k fk flt res emb False = Inr ((r, a), s')"
    and "r \<noteq> []"
  shows "get_descriptor_response q s name k fk flt res emb True
         = (case normalize_response r s' of
              Inl e \<Rightarrow> Inl e
            | Inr (r', s'') \<Rightarrow> Inr ((r', a), s''))"
proof (cases flt)
  case None
  then show ?thesis using assms
    by (auto simp: get_descriptor_response_def Let_def split: sum.splits if_splits)
next
  case (Some c)
  then show ?thesis using assms
    by (auto simp: get_descriptor_response_def Let_def dest: find_constrained_early
        split: sum.splits if_splits)
qed

text \<open>
  Claim C2, as amended. Take a search, filtered or not, that returns the entities \<open>es\<close>
  without normalisation. With normalisation enabled the minimum is the constant \<open>0.0\<close>
  and is not computed from the candidates: when every returned distance is finite or
  \<open>+infinity\<close>, at least one is finite and the largest finite one, \<open>max\<close>, is not zero,
  the same search returns the same entities with each finite distance \<open>d\<close> replaced by
  \<open>d / max\<close>, where \<open>max\<close> is taken over the returned distances other than
  \<open>+infinity\<close>; nothing else changes and nothing is logged. Distances
  \<open>[0.1, 0.3, 0.5]\<close> become \<open>[0.2, 0.6, 1.0]\<close>.
\<close>

theorem normalization_divides_by_max:
  assumes "get_descriptor_response q s name k fetch_k flt results emb False
           = Inr ((FindDescriptorR (Some es) ret # rs, arr), s')"
    and "map_err ent_distance es = Inr ds"
    and "\<forall>d \<in> set ds. d = PInf \<or> (\<exists>x. d = Fin x)"
    and "finite_values ds \<noteq> []"
    and "Max (set (finite_values ds)) \<noteq> 0"
  shows "get_descriptor_response q s name k fetch_k flt results emb True =
     Inr ((FindDescriptorR
            (Some (map2 (\<lambda>ent d. AList.update ''_distance''
                     (PNum (case d of
                              Fin x \<Rightarrow> Fin (x / Max (set (finite_values ds)))
                            | _ \<Rightarrow> if 0 < Max (set (finite_values ds)) then PInf else NInf)) ent)
                   es ds)) ret # rs, arr), s')"
  using normalization_follows_search [OF assms(1)]
    normalize_response_regular [OF assms(2-5), of ret rs s']
  by simp

theorem normalization_divides_by_max_witness:
  "get_descriptor_response (canned_server [] tenths_hits) fresh_store ''langchain'' 3 15
     None None (Some [1, 1]) True
   = Inr (([FindDescriptorR
             (Some [hit ''1'' ''foo'' (1 / 5), hit ''2'' ''bar'' (3 / 5), hit ''3'' ''baz'' 1])
             (Some 3)], []), fresh_store)"
proof -
  let ?ds = "[Fin (1 / 10), Fin (3 / 10), Fin (1 / 2)]"
  have h0: "get_descriptor_response (canned_server [] tenths_hits) fresh_store ''langchain''
              3 15 None None (Some [1, 1]) False
            = Inr ((FindDescriptorR (Some tenths_hits) (Some 3) # [], []), fresh_store)"
    by code_simp
  have h1: "map_err ent_distance tenths_hits = Inr ?ds"
    by (simp add: tenths_hits_def hit_distance)
  have h2: "\<forall>d \<in> set ?ds. d = PInf \<or> (\<exists>x. d = Fin x)"
    by (simp del: pyfloat.inject) blast
  have h3: "finite_values ?ds \<noteq> []"
    by simp
  have m: "Max (set (finite_values ?ds)) = 1 / 2"
    by simp
  have h4: "Max (set (finite_values ?ds)) \<noteq> 0"
    by (simp add: m)
  show ?thesis
    using normalization_divides_by_max [OF h0 h1 h2 h3 h4]
    by (simp only: m) (simp add: tenths_hits_def hit_def)
qed

text \<open>
  The distances \<open>[0.1, 0.3, 0.5]\<close> are not mapped to \<open>[0.0, 0.5, 1.0]\<close>, the values of
  \<open>(d - min) / (max - min)\<close>.
\<close>

theorem normalization_counterexample:
  "get_descriptor_response (canned_server [] tenths_hits) fresh_store ''langchain'' 3 15
     None None (Some [1, 1]) True
   = Inr (([FindDescriptorR
             (Some [hit ''1'' ''foo'' (1 / 5), hit ''2'' ''bar'' (3 / 5), hit ''3'' ''baz'' 1])
             (Some 3)], []), fresh_store)
   \<and> spec_min_max_normalize [1 / 10, 3 / 10, 1 / 2] = [0, 1 / 2, 1]
   \<and> [1 / 5, 3 / 5, 1] \<noteq> spec_min_max_normalize [1 / 10, 3 / 10, 1 / 2]"
proof -
  have "get_descriptor_response (canned_server [] tenths_hits) fresh_store ''langchain'' 3 15
     None None (Some [1, 1]) True
   = Inr (([FindDescriptorR
             (Some [hit ''1'' ''foo'' (1 / 5), hit ''2'' ''bar'' (3 / 5), hit ''3'' ''baz'' 1])
             (Some 3)], []), fresh_store)"
    by code_simp
  moreover have "spec_min_max_normalize [1 / 10, 3 / 10, 1 / 2] = [0, 1 / 2, 1]"
    by (simp add: spec_min_max_normalize_def)
  ultimately show ?thesis by simp
qed

subsection \<open>The precondition on \<open>fetch_k\<close>\<close>

lemma check_flag_off:
  "check_and_update_properties q (s\<lparr>updated_properties_flag := False\<rparr>)
   = Inr (s\<lparr>updated_properties_flag := False\<rparr>)"
  by (simp add: check_and_update_properties_def)

text \<open>
  Claim C1 lets every search with \<open>fetch_k \<ge> k\<close> proceed. \<open>query_by_embeddings\<close> tests
  \<open>fetch_k >= k\<close> and then calls \<open>get_descriptor_response\<close>, which raises when
  \<open>k_neighbors >= fetch_k\<close>: with \<open>fetch_k = k\<close> the search raises \<open>ValueError\<close>, for
  every server, store, filter and \<open>k\<close>, before any query is issued. With \<open>k = 5\<close> and
  \<open>fetch_k = 3\<close> no query is issued either: \<open>query_by_embeddings\<close> returns one empty
  response and logs at the level \<open>INFO\<close>, and \<open>similarity_search_by_vector\<close> raises
  \<open>IndexError\<close> on that empty response.
\<close>

theorem search_with_fetch_k_equal_k_raises:
  "query_by_embeddings q (s\<lparr>updated_properties_flag := False\<rparr>) (Some (qemb # rest)) name
     k k flt results normalize_distance include
   = Inl (ValueError ''Provide fetch_k > k; Currently set at {fetch_k}'')
   \<and> similarity_search_by_vector q (s\<lparr>updated_properties_flag := False\<rparr>) qemb k k flt
       normalize_distance
     = Inl (ValueError ''Provide fetch_k > k; Currently set at {fetch_k}'')
   \<and> query_by_embeddings q (s\<lparr>updated_properties_flag := False\<rparr>) (Some [qemb]) name
       5 3 flt results normalize_distance include
     = Inr ([([], [])], log_returning_0 (s\<lparr>updated_properties_flag := False\<rparr>))
   \<and> similarity_search_by_vector q (s\<lparr>updated_properties_flag := False\<rparr>) qemb 5 3 flt
       normalize_distance
     = Inl IndexError"
  by (simp add: query_by_embeddings_def similarity_search_by_vector_def check_flag_off
      query_one_def get_descriptor_response_def Let_def)

subsection \<open>Reads and failed commands\<close>

text \<open>
  Claim C5 has every read return normally when a command fails at query time. On a
  server that answers the neighbour query with \<open>FailedCommand\<close>, the unfiltered
  \<open>query_by_embeddings\<close> does log and return an empty response, and
  \<open>similarity_search_with_score\<close> returns the empty list; but
  \<open>similarity_search_by_vector\<close> raises \<open>IndexError\<close> (it reads \<open>resp[0]\<close> of the empty
  response under \<open>except ValueError\<close>), and \<open>query_by_embeddings\<close> itself raises
  \<open>IndexError\<close> when distances are normalised, and when the search is filtered and the
  failing command is the neighbour query.
\<close>

theorem read_raises_on_failed_command:
  "similarity_search_by_vector failing_server fresh_store [1, 0] DEFAULT_K DEFAULT_FETCH_K None False
   = Inl IndexError
   \<and> query_by_embeddings failing_server fresh_store (Some [[1, 0]]) None DEFAULT_K DEFAULT_FETCH_K
       None None True [''metadatas'']
     = Inl IndexError
   \<and> query_by_embeddings (neighbour_failing_server five_hits) fresh_store (Some [[1, 0]]) None
       DEFAULT_K DEFAULT_FETCH_K (Some bar_is_baz) None False [''metadatas'']
     = Inl IndexError
   \<and> query_by_embeddings failing_server fresh_store (Some [[1, 0]]) None DEFAULT_K DEFAULT_FETCH_K
       None None False [''metadatas'']
     = Inr ([([], [])], fresh_store\<lparr>logged :=
          [(INFO, ''Exception[in query_by_embeddings]: {e}''),
           (INFO, ''Returning 0 results'')]\<rparr>)
   \<and> similarity_search_with_score failing_server fresh_store [1, 0] DEFAULT_K DEFAULT_FETCH_K None False
     = Inr ([], fresh_store\<lparr>logged :=
          [(INFO, ''Exception[in query_by_embeddings]: {e}''),
           (INFO, ''Returning 0 results''),
           (WARNING, ''No results returned. Error while parsing results: {e}'')]\<rparr>)"
  by code_simp

subsection \<open>Records without text\<close>

text \<open>
  Claim C7 has a record without the content key dropped, without an error, and the
  well-formed records still returned. For the three neighbours \<open>1\<close>, \<open>2\<close>, \<open>3\<close> of which
  \<open>2\<close> was stored without text, \<open>similarity_search_by_vector\<close> raises \<open>KeyError\<close>, and
  \<open>similarity_search_with_score\<close> returns the document \<open>1\<close> alone: the well-formed
  record \<open>3\<close> is lost with \<open>2\<close>.
\<close>

theorem record_without_content_aborts_projection:
  "similarity_search_by_vector
     (canned_server [] [hit ''1'' ''foo'' (1 / 10), hit_without_text ''2'' (1 / 5),
                        hit ''3'' ''baz'' (1 / 2)])
     fresh_store [1, 0] DEFAULT_K DEFAULT_FETCH_K None False
   = Inl (KeyError ''content'')
   \<and> similarity_search_with_score
     (canned_server [] [hit ''1'' ''foo'' (1 / 10), hit_without_text ''2'' (1 / 5),
                        hit ''3'' ''baz'' (1 / 2)])
     fresh_store [1, 0] DEFAULT_K DEFAULT_FETCH_K None False
     = Inr ([(\<lparr>page_content = PStr ''foo'', metadata = [], doc_id = Some (PStr ''1'')\<rparr>,
              Fin (1 / 10))],
            fresh_store\<lparr>logged :=
              [(WARNING, ''No results returned. Error while parsing results: {e}'')]\<rparr>)"
  by code_simp

subsection \<open>Result projection\<close>

lemma kept_alt:
  "filter (\<lambda>(mkey, mval). mval \<notin> set INVALID_METADATA_VALUE \<and> mkey \<notin> set INVALID_DOC_METADATA_KEYS) ent
   = kept ent"
  unfolding kept_def by (rule filter_cong) auto

lemma kept_clean:
  "(k, v) \<in> set (kept ent) \<Longrightarrow>
   k \<notin> set INVALID_DOC_METADATA_KEYS \<and> v \<notin> set INVALID_METADATA_VALUE"
  by (auto simp: kept_def)

lemma delete_no_key: "(k, v) \<in> set (AList.delete a al) \<Longrightarrow> k \<noteq> a \<and> (k, v) \<in> set al"
  by (auto simp: AList.delete_eq)

lemma map_of_no_key: "map_of al a = None \<Longrightarrow> (k, v) \<in> set al \<Longrightarrow> k \<noteq> a"
  by (auto simp: map_of_eq_None_iff image_iff)

lemma kept_identity:
  assumes "distinct (map fst ent)" and "(LANGCHAIN_ID_PROPERTY, v) \<in> set ent"
    and "v \<notin> set INVALID_METADATA_VALUE"
  shows "map_of (kept ent) LANGCHAIN_ID_PROPERTY = Some v"
proof -
  have "LANGCHAIN_ID_PROPERTY \<notin> set INVALID_DOC_METADATA_KEYS"
    by (simp add: LANGCHAIN_ID_PROPERTY_def INVALID_DOC_METADATA_KEYS_def TEXT_PROPERTY_def)
  then have "(LANGCHAIN_ID_PROPERTY, v) \<in> set (kept ent)"
    using assms(2,3) by (simp add: kept_def)
  moreover have "distinct (map fst (kept ent))"
    using assms(1) unfolding kept_def by (rule distinct_map_filter)
  ultimately show ?thesis by simp
qed

lemma projects_clean:
  assumes "projects ent doc" and "(k, v) \<in> set (metadata doc)"
  shows "k \<notin> set INVALID_DOC_METADATA_KEYS \<and> k \<noteq> LANGCHAIN_ID_PROPERTY
         \<and> v \<notin> set INVALID_METADATA_VALUE"
proof (cases "map_of (kept ent) LANGCHAIN_ID_PROPERTY")
  case None
  then have "metadata doc = kept ent" using assms(1) by (simp add: projects_def)
  then show ?thesis using assms(2) None kept_clean map_of_no_key by metis
next
  case (Some w)
  then have "metadata doc = AList.delete LANGCHAIN_ID_PROPERTY (kept ent)"
    using assms(1) by (simp add: projects_def)
  then show ?thesis using assms(2) kept_clean delete_no_key by metis
qed

lemma descriptor2document_projects:
  "descriptor2document ent = Inr doc \<Longrightarrow> projects ent doc"
  by (auto simp: descriptor2document_def projects_def kept_def [symmetric] Let_def
      split: option.splits sum.splits)

lemma project_loop_prefix:
  "project_loop d ents acc = (out, e) \<Longrightarrow>
   \<exists>new. out = acc @ new \<and> length new \<le> length ents
     \<and> (\<forall>i < length new. projects (ents ! i) (fst (new ! i)))"
proof (induction ents arbitrary: d acc)
  case Nil
  then show ?case by simp
next
  case (Cons ent ents)
  show ?case
  proof (cases "ent_distance ent")
    case (Inl a)
    then show ?thesis using Cons.prems by simp
  next
    case (Inr dd)
    note dist = this
    show ?thesis
    proof (cases "dict_get ent TEXT_PROPERTY")
      case (Inl a)
      then show ?thesis using Cons.prems dist by simp
    next
      case (Inr t)
      note ctext = this
      let ?d' = "case map_of (kept ent) LANGCHAIN_ID_PROPERTY of Some v \<Rightarrow> Some v | None \<Rightarrow> d"
      let ?props = "case map_of (kept ent) LANGCHAIN_ID_PROPERTY of
                      Some v \<Rightarrow> AList.delete LANGCHAIN_ID_PROPERTY (kept ent) | None \<Rightarrow> kept ent"
      show ?thesis
      proof (cases ?d')
        case None
        then show ?thesis using Cons.prems dist ctext
          by (auto simp: kept_alt Let_def split: option.splits)
      next
        case (Some i)
        let ?doc = "\<lparr>page_content = t, metadata = ?props, doc_id = Some i\<rparr>"
        have step: "project_loop d (ent # ents) acc
                    = project_loop (Some i) ents (acc @ [(?doc, py_round10 dd)])"
          using dist ctext Some by (auto simp: kept_alt Let_def split: option.splits)
        have pd: "projects ent ?doc"
          using Some by (auto simp: projects_def split: option.splits)
        from Cons.prems step
        have "project_loop (Some i) ents (acc @ [(?doc, py_round10 dd)]) = (out, e)" by simp
        from Cons.IH [OF this] obtain new where
          n: "out = (acc @ [(?doc, py_round10 dd)]) @ new" "length new \<le> length ents"
             "\<forall>i < length new. projects (ents ! i) (fst (new ! i))"
          by blast
        let ?new = "(?doc, py_round10 dd) # new"
        have "out = acc @ ?new" using n(1) by simp
        moreover have "length ?new \<le> length (ent # ents)" using n(2) by simp
        moreover have "\<forall>j < length ?new. projects ((ent # ents) ! j) (fst (?new ! j))"
        proof (intro allI impI)
          fix j assume "j < length ?new"
          then show "projects ((ent # ents) ! j) (fst (?new ! j))"
            using pd n(3) by (cases j) auto
        qed
        ultimately show ?thesis by blast
      qed
    qed
  qed
qed

lemma results2documents_projects:
  "\<exists>out. fst (results2documents_and_scores s results) = out
     \<and> length out \<le> length (first_entities results)
     \<and> (\<forall>i < length out. projects (first_entities results ! i) (fst (out ! i)))"
proof -
  have "\<And>es out e. project_loop None es [] = (out, e) \<Longrightarrow>
     length out \<le> length es \<and> (\<forall>i < length out. projects (es ! i) (fst (out ! i)))"
    using project_loop_prefix by fastforce
  then show ?thesis
    by (auto simp: results2documents_and_scores_def first_entities_def Let_def
        split: list.splits response.splits option.splits prod.splits)
qed


text \<open>
  Claim C8. Every document that result projection produces, by \<open>descriptor2document\<close>
  or among the pairs of \<open>results2documents_and_scores\<close>, has metadata with none of the
  keys \<open>_distance\<close>, \<open>content\<close>, \<open>blob\<close>, without the identity property, and with none
  of the values \<open>"Missing property"\<close>, \<open>None\<close>, \<open>{}\<close>; and the identity that the raw
  record carries is the document's id. The \<open>i\<close>-th pair of
  \<open>results2documents_and_scores\<close> comes from the \<open>i\<close>-th entity of the response.
\<close>

theorem projected_documents_clean:
  "(\<forall>doc. descriptor2document ent = Inr doc \<longrightarrow>
      (\<forall>(k, v) \<in> set (metadata doc).
          k \<notin> set INVALID_DOC_METADATA_KEYS \<and> k \<noteq> LANGCHAIN_ID_PROPERTY
          \<and> v \<notin> set INVALID_METADATA_VALUE)
      \<and> (\<forall>v. distinct (map fst ent) \<and> (LANGCHAIN_ID_PROPERTY, v) \<in> set ent
               \<and> v \<notin> set INVALID_METADATA_VALUE \<longrightarrow> doc_id doc = Some v))
   \<and> length (fst (results2documents_and_scores s results)) \<le> length (first_entities results)
   \<and> (\<forall>i < length (fst (results2documents_and_scores s results)).
        (\<forall>(k, v) \<in> set (metadata (fst (fst (results2documents_and_scores s results) ! i))).
            k \<notin> set INVALID_DOC_METADATA_KEYS \<and> k \<noteq> LANGCHAIN_ID_PROPERTY
            \<and> v \<notin> set INVALID_METADATA_VALUE)
        \<and> (\<forall>v. distinct (map fst (first_entities results ! i))
                 \<and> (LANGCHAIN_ID_PROPERTY, v) \<in> set (first_entities results ! i)
                 \<and> v \<notin> set INVALID_METADATA_VALUE
               \<longrightarrow> doc_id (fst (fst (results2documents_and_scores s results) ! i)) = Some v))"
proof -
  have clean: "\<And>e d. projects e d \<Longrightarrow>
      (\<forall>(k, v) \<in> set (metadata d).
          k \<notin> set INVALID_DOC_METADATA_KEYS \<and> k \<noteq> LANGCHAIN_ID_PROPERTY
          \<and> v \<notin> set INVALID_METADATA_VALUE)"
    using projects_clean by blast
  have ident: "\<And>e d v. projects e d \<Longrightarrow> distinct (map fst e)
      \<and> (LANGCHAIN_ID_PROPERTY, v) \<in> set e \<and> v \<notin> set INVALID_METADATA_VALUE
      \<Longrightarrow> doc_id d = Some v"
    using kept_identity by (simp add: projects_def)
  have one: "\<forall>doc. descriptor2document ent = Inr doc \<longrightarrow>
      (\<forall>(k, v) \<in> set (metadata doc).
          k \<notin> set INVALID_DOC_METADATA_KEYS \<and> k \<noteq> LANGCHAIN_ID_PROPERTY
          \<and> v \<notin> set INVALID_METADATA_VALUE)
      \<and> (\<forall>v. distinct (map fst ent) \<and> (LANGCHAIN_ID_PROPERTY, v) \<in> set ent
               \<and> v \<notin> set INVALID_METADATA_VALUE \<longrightarrow> doc_id doc = Some v)"
    using descriptor2document_projects clean ident by blast
  from results2documents_projects [of s results]
  have len: "length (fst (results2documents_and_scores s results)) \<le> length (first_entities results)"
    and pr: "\<forall>i < length (fst (results2documents_and_scores s results)).
          projects (first_entities results ! i) (fst (fst (results2documents_and_scores s results) ! i))"
    by auto
  have many: "\<forall>i < length (fst (results2documents_and_scores s results)).
        (\<forall>(k, v) \<in> set (metadata (fst (fst (results2documents_and_scores s results) ! i))).
            k \<notin> set INVALID_DOC_METADATA_KEYS \<and> k \<noteq> LANGCHAIN_ID_PROPERTY
            \<and> v \<notin> set INVALID_METADATA_VALUE)
        \<and> (\<forall>v. distinct (map fst (first_entities results ! i))
                 \<and> (LANGCHAIN_ID_PROPERTY, v) \<in> set (first_entities results ! i)
                 \<and> v \<notin> set INVALID_METADATA_VALUE
               \<longrightarrow> doc_id (fst (fst (results2documents_and_scores s results) ! i)) = Some v)"
    using pr clean ident by blast
  from one len many show ?thesis by blast
qed


theorem projected_documents_clean_witness:
  "descriptor2document raw_record
     = Inr \<lparr>page_content = PStr ''thud'', metadata = [(''bar'', PStr ''baz'')],
            doc_id = Some (PStr ''2'')\<rparr>
   \<and> fst (results2documents_and_scores fresh_store
            [([FindDescriptorR (Some [raw_record]) (Some 1)], [])])
     = [(\<lparr>page_content = PStr ''thud'', metadata = [(''bar'', PStr ''baz'')],
            doc_id = Some (PStr ''2'')\<rparr>, Fin (1 / 2))]
   \<and> distinct (map fst raw_record)
   \<and> (LANGCHAIN_ID_PROPERTY, PStr ''2'') \<in> set raw_record
   \<and> PStr ''2'' \<notin> set INVALID_METADATA_VALUE
   \<and> doc_id (fst (fst (results2documents_and_scores fresh_store
            [([FindDescriptorR (Some [raw_record]) (Some 1)], [])]) ! 0)) = Some (PStr ''2'')
   \<and> ''_distance'' \<notin> fst ` set (metadata (fst (fst (results2documents_and_scores fresh_store
            [([FindDescriptorR (Some [raw_record]) (Some 1)], [])]) ! 0)))"
proof -
  let ?results = "[([FindDescriptorR (Some [raw_record]) (Some 1)], [])]"
  let ?doc = "\<lparr>page_content = PStr ''thud'', metadata = [(''bar'', PStr ''baz'')],
            doc_id = Some (PStr ''2'')\<rparr>"
  have a: "descriptor2document raw_record = Inr ?doc"
    by code_simp
  have b: "fst (results2documents_and_scores fresh_store ?results) = [(?doc, Fin (1 / 2))]"
    by code_simp
  have c: "distinct (map fst raw_record) \<and> (LANGCHAIN_ID_PROPERTY, PStr ''2'') \<in> set raw_record
           \<and> PStr ''2'' \<notin> set INVALID_METADATA_VALUE"
    by code_simp
  have d: "first_entities ?results = [raw_record]"
    by (simp add: first_entities_def)
  have e: "''_distance'' \<in> set INVALID_DOC_METADATA_KEYS"
    by (simp add: INVALID_DOC_METADATA_KEYS_def)
  from projected_documents_clean [of raw_record fresh_store ?results] a b c d e
  show ?thesis
    by (auto simp del: distinct.simps)
qed

subsection \<open>Filtered search\<close>

lemma get_k_candidates_identified:
  "get_k_candidates q s name k res bs = Inr ((r, a), s') \<Longrightarrow> list_all identified r"
  by (auto simp: get_k_candidates_def Let_def list_all_iff
      dest!: run_vdms_query_identified split: sum.splits list.splits if_splits)

lemma identified_find:
  "identified (FindDescriptorR (Some es) n) \<Longrightarrow>
   n = Some (int (length es)) \<and> list_all (\<lambda>ent. dict_has ent LANGCHAIN_ID_PROPERTY) es"
  by (simp add: identified_def)

lemma dict_has_get:
  "dict_has ent k \<Longrightarrow> \<exists>v. map_of ent k = Some v \<and> dict_get ent k = Inr v"
  by (cases "map_of ent k") (auto simp: dict_has_def dict_get_def map_of_eq_None_iff)

lemma map_err_ids:
  "list_all (\<lambda>ent. dict_has ent LANGCHAIN_ID_PROPERTY) es \<Longrightarrow>
   map_err (\<lambda>ent. dict_get ent LANGCHAIN_ID_PROPERTY) es = Inr (ids_of es)"
proof (induction es)
  case Nil
  then show ?case by (simp add: ids_of_def List.map_filter_simps)
next
  case (Cons ent es)
  then obtain v where "map_of ent LANGCHAIN_ID_PROPERTY = Some v"
    "dict_get ent LANGCHAIN_ID_PROPERTY = Inr v"
    using dict_has_get by fastforce
  then show ?case using Cons by (simp add: ids_of_def List.map_filter_simps)
qed

lemma intersect_walk_take:
  assumes "list_all (\<lambda>ent. dict_has ent LANGCHAIN_ID_PROPERTY) ents"
    and "0 < k" and "int (length acc) < k"
  shows "intersect_walk ids k acc ents = Inr (take (nat k) (acc @ filter (id_among ids) ents))"
  using assms
proof (induction ents arbitrary: acc)
  case Nil
  then show ?case by simp
next
  case (Cons ent ents)
  then obtain v where v: "map_of ent LANGCHAIN_ID_PROPERTY = Some v"
    "dict_get ent LANGCHAIN_ID_PROPERTY = Inr v"
    using dict_has_get by fastforce
  show ?case
  proof (cases "v \<in> set ids")
    case False
    then have "filter (id_among ids) (ent # ents) = filter (id_among ids) ents"
      using v by (simp add: id_among_def)
    moreover have "intersect_walk ids k acc (ent # ents) = intersect_walk ids k acc ents"
      using v False Cons.prems(3) by simp
    ultimately show ?thesis using Cons by simp
  next
    case True
    then have f: "filter (id_among ids) (ent # ents) = ent # filter (id_among ids) ents"
      using v by (simp add: id_among_def)
    show ?thesis
    proof (cases "int (length acc) + 1 = k")
      case True
      then have "intersect_walk ids k acc (ent # ents) = Inr (acc @ [ent])"
        using v \<open>v \<in> set ids\<close> by simp
      moreover have "nat k = Suc (length acc)" using True by simp
      ultimately show ?thesis using f by simp
    next
      case False
      then have lt: "int (length (acc @ [ent])) < k" using Cons.prems(3) by simp
      have "intersect_walk ids k acc (ent # ents) = intersect_walk ids k (acc @ [ent]) ents"
        using v \<open>v \<in> set ids\<close> False by simp
      then show ?thesis
        using Cons.IH [OF _ Cons.prems(2) lt] Cons.prems(1) f by simp
    qed
  qed
qed


lemma constrained_top_k_walk:
  assumes "0 < k"
    and p2: "get_k_candidates q s1 name (Some fetch_k) res bs
             = Inr ((FindDescriptorR (Some neighbours) n2 # rs, arr), s2)"
    and "neighbours \<noteq> []"
  shows "constrained_top_k q s1 name k fetch_k res bs ids =
     Inr (False,
          (FindDescriptorR (Some (take (nat k) (filter (id_among ids) neighbours)))
             (Some (int (length (take (nat k) (filter (id_among ids) neighbours))))) # rs,
           py_take arr (int (length (take (nat k) (filter (id_among ids) neighbours))))),
          (if int (length (take (nat k) (filter (id_among ids) neighbours))) < k
           then logger WARNING ''Returned items < k_neighbors; Try increasing fetch_k'' s2
           else s2))"
proof -
  from get_k_candidates_identified [OF p2]
  have "identified (FindDescriptorR (Some neighbours) n2)" by simp
  then have n2: "n2 = Some (int (length neighbours))"
    and ids: "list_all (\<lambda>ent. dict_has ent LANGCHAIN_ID_PROPERTY) neighbours"
    using identified_find by blast+
  have w: "intersect_walk ids k [] neighbours = Inr (take (nat k) (filter (id_among ids) neighbours))"
    using intersect_walk_take [OF ids \<open>0 < k\<close>, of "[]" ids] \<open>0 < k\<close> by simp
  show ?thesis
    using p2 n2 w \<open>neighbours \<noteq> []\<close>
    by (simp add: constrained_top_k_def Let_def)
qed

lemma constrained_top_k_empty:
  assumes p2: "get_k_candidates q s1 name (Some fetch_k) res bs
             = Inr ((FindDescriptorR (Some []) n2 # rs, arr), s2)"
  shows "constrained_top_k q s1 name k fetch_k res bs ids = Inr (True, ([], []), s2)"
proof -
  from get_k_candidates_identified [OF p2]
  have "identified (FindDescriptorR (Some []) n2)" by simp
  then have "n2 = Some 0" using identified_find by fastforce
  then show ?thesis using p2 by (simp add: constrained_top_k_def)
qed

text \<open>
  Claim C3, as amended. Take a filtered search without distance normalisation and with
  \<open>0 < k < fetch_k\<close>; let \<open>matched\<close> be the entities that the filter query returns and
  \<open>neighbours\<close> those of the query for the top \<open>fetch_k\<close> neighbours (both after the
  entities without identity have been dropped). When \<open>matched\<close> is empty, or
  \<open>neighbours\<close> is, \<open>get_descriptor_response\<close> returns the empty response and logs
  nothing. Otherwise its entities are the first \<open>k\<close> of the neighbours whose identity is
  one of the matched identities, in the neighbours' order: the walk stops at \<open>k\<close> matches
  or at the end of the list; and the warning is logged exactly when fewer than \<open>k\<close> were
  found, the partial result being returned.
\<close>

theorem filtered_search_walk:
  assumes "0 < k" and "k < fetch_k"
    and p1: "run_vdms_query q s
               [add_descriptor FindDescriptor name None None (Some c)
                  (Some (ensure_id_listed results))] []
             = Inr ((FindDescriptorR (Some matched) n1 # x1, a1), s1)"
  shows
    "(matched = [] \<longrightarrow>
        get_descriptor_response q s name k fetch_k (Some c) results emb False
        = Inr (([], []), s1))
     \<and> (\<forall>n2 rs arr s2.
          matched \<noteq> []
          \<and> get_k_candidates q s1 name (Some fetch_k) (Some (ensure_id_listed results))
              (case embedding2bytes emb of None \<Rightarrow> [] | Some b \<Rightarrow> [b])
            = Inr ((FindDescriptorR (Some []) n2 # rs, arr), s2)
          \<longrightarrow> get_descriptor_response q s name k fetch_k (Some c) results emb False
              = Inr (([], []), s2))
     \<and> (\<forall>neighbours n2 rs arr s2.
          matched \<noteq> [] \<and> neighbours \<noteq> []
          \<and> get_k_candidates q s1 name (Some fetch_k) (Some (ensure_id_listed results))
              (case embedding2bytes emb of None \<Rightarrow> [] | Some b \<Rightarrow> [b])
            = Inr ((FindDescriptorR (Some neighbours) n2 # rs, arr), s2)
          \<longrightarrow> get_descriptor_response q s name k fetch_k (Some c) results emb False
              = Inr ((FindDescriptorR
                        (Some (take (nat k) (filter (id_among (ids_of matched)) neighbours)))
                        (Some (int (length
                           (take (nat k) (filter (id_among (ids_of matched)) neighbours))))) # rs,
                      py_take arr (int (length
                           (take (nat k) (filter (id_among (ids_of matched)) neighbours))))),
                     (if int (length (take (nat k) (filter (id_among (ids_of matched)) neighbours))) < k
                      then logger WARNING ''Returned items < k_neighbors; Try increasing fetch_k'' s2
                      else s2)))"
proof -
  from run_vdms_query_identified [OF p1]
  have "identified (FindDescriptorR (Some matched) n1)" by simp
  then have n1: "n1 = Some (int (length matched))"
    and ids: "list_all (\<lambda>ent. dict_has ent LANGCHAIN_ID_PROPERTY) matched"
    using identified_find by blast+
  have me: "map_err (\<lambda>ent. dict_get ent LANGCHAIN_ID_PROPERTY) matched = Inr (ids_of matched)"
    using ids by (rule map_err_ids)
  have g: "\<not> fetch_k \<le> k" using \<open>k < fetch_k\<close> by simp
  have empty: "matched = [] \<Longrightarrow>
      find_constrained q s name k fetch_k c results
        (case embedding2bytes emb of None \<Rightarrow> [] | Some b \<Rightarrow> [b]) = Inr (True, ([], []), s1)"
    using p1 n1 by (simp add: find_constrained_def Let_def)
  have nonempty: "matched \<noteq> [] \<Longrightarrow>
      find_constrained q s name k fetch_k c results
        (case embedding2bytes emb of None \<Rightarrow> [] | Some b \<Rightarrow> [b])
      = constrained_top_k q s1 name k fetch_k (Some (ensure_id_listed results))
          (case embedding2bytes emb of None \<Rightarrow> [] | Some b \<Rightarrow> [b]) (ids_of matched)"
    using p1 n1 me by (simp add: find_constrained_def Let_def)
  show ?thesis
  proof (intro conjI allI impI)
    assume "matched = []"
    then show "get_descriptor_response q s name k fetch_k (Some c) results emb False
        = Inr (([], []), s1)"
      using g empty by (simp add: get_descriptor_response_def Let_def)
  next
    fix n2 rs arr s2
    assume a: "matched \<noteq> []
          \<and> get_k_candidates q s1 name (Some fetch_k) (Some (ensure_id_listed results))
              (case embedding2bytes emb of None \<Rightarrow> [] | Some b \<Rightarrow> [b])
            = Inr ((FindDescriptorR (Some []) n2 # rs, arr), s2)"
    then show "get_descriptor_response q s name k fetch_k (Some c) results emb False
              = Inr (([], []), s2)"
      using g nonempty constrained_top_k_empty [of q s1 name fetch_k _ _ n2 rs arr s2 k "ids_of matched"]
      by (simp add: get_descriptor_response_def Let_def)
  next
    fix neighbours n2 rs arr s2
    assume a: "matched \<noteq> [] \<and> neighbours \<noteq> []
          \<and> get_k_candidates q s1 name (Some fetch_k) (Some (ensure_id_listed results))
              (case embedding2bytes emb of None \<Rightarrow> [] | Some b \<Rightarrow> [b])
            = Inr ((FindDescriptorR (Some neighbours) n2 # rs, arr), s2)"
    then have "constrained_top_k q s1 name k fetch_k (Some (ensure_id_listed results))
          (case embedding2bytes emb of None \<Rightarrow> [] | Some b \<Rightarrow> [b]) (ids_of matched)
       = Inr (False,
          (FindDescriptorR (Some (take (nat k) (filter (id_among (ids_of matched)) neighbours)))
             (Some (int (length (take (nat k) (filter (id_among (ids_of matched)) neighbours))))) # rs,
           py_take arr (int (length (take (nat k) (filter (id_among (ids_of matched)) neighbours))))),
          (if int (length (take (nat k) (filter (id_among (ids_of matched)) neighbours))) < k
           then logger WARNING ''Returned items < k_neighbors; Try increasing fetch_k'' s2
           else s2))"
      using constrained_top_k_walk [OF \<open>0 < k\<close>, of q s1 name fetch_k _ _ neighbours n2 rs arr s2]
      by simp
    then show "get_descriptor_response q s name k fetch_k (Some c) results emb False
              = Inr ((FindDescriptorR
                        (Some (take (nat k) (filter (id_among (ids_of matched)) neighbours)))
                        (Some (int (length
                           (take (nat k) (filter (id_among (ids_of matched)) neighbours))))) # rs,
                      py_take arr (int (length
                           (take (nat k) (filter (id_among (ids_of matched)) neighbours))))),
                     (if int (length (take (nat k) (filter (id_among (ids_of matched)) neighbours))) < k
                      then logger WARNING ''Returned items < k_neighbors; Try increasing fetch_k'' s2
                      else s2))"
      using g nonempty a by (simp add: get_descriptor_response_def Let_def)
  qed
qed


theorem filtered_search_walk_witness:
  "get_descriptor_response (canned_server [] five_hits) fresh_store ''langchain'' 3 15
     (Some bar_is_baz) None (Some [1, 0]) False
   = Inr (([], []), fresh_store)
   \<and> get_descriptor_response (canned_server [hit ''2'' ''two'' (1 / 5)] []) fresh_store
       ''langchain'' 3 15 (Some bar_is_baz) None (Some [1, 0]) False
     = Inr (([], []), fresh_store)
   \<and> get_descriptor_response
       (canned_server [hit ''4'' ''four'' (2 / 5), hit ''2'' ''two'' (1 / 5)] five_hits)
       fresh_store ''langchain'' 3 15 (Some bar_is_baz) None (Some [1, 0]) False
     = Inr (([FindDescriptorR (Some [hit ''2'' ''two'' (1 / 5), hit ''4'' ''four'' (2 / 5)])
                (Some 2)], []),
            logger WARNING ''Returned items < k_neighbors; Try increasing fetch_k'' fresh_store)"
proof -
  let ?q1 = "add_descriptor FindDescriptor ''langchain'' None None (Some bar_is_baz)
               (Some (ensure_id_listed None))"
  let ?bs = "case embedding2bytes (Some [1, 0]) of None \<Rightarrow> [] | Some b \<Rightarrow> [b]"
  let ?m = "[hit ''4'' ''four'' (2 / 5), hit ''2'' ''two'' (1 / 5)]"
  have k: "(0::int) < 3" "(3::int) < 15" by simp_all
  have a1: "run_vdms_query (canned_server [] five_hits) fresh_store [?q1] []
            = Inr ((FindDescriptorR (Some []) (Some 0) # [], []), fresh_store)"
    by code_simp
  have b1: "run_vdms_query (canned_server [hit ''2'' ''two'' (1 / 5)] []) fresh_store [?q1] []
            = Inr ((FindDescriptorR (Some [hit ''2'' ''two'' (1 / 5)]) (Some 1) # [], []), fresh_store)"
    by code_simp
  have b2: "[hit ''2'' ''two'' (1 / 5)] \<noteq> []
     \<and> get_k_candidates (canned_server [hit ''2'' ''two'' (1 / 5)] []) fresh_store ''langchain''
        (Some 15) (Some (ensure_id_listed None)) ?bs
       = Inr ((FindDescriptorR (Some []) (Some 0) # [], []), fresh_store)"
    by code_simp
  have c1: "run_vdms_query (canned_server ?m five_hits) fresh_store [?q1] []
            = Inr ((FindDescriptorR (Some ?m) (Some 2) # [], []), fresh_store)"
    by code_simp
  have c2: "?m \<noteq> [] \<and> five_hits \<noteq> []
     \<and> get_k_candidates (canned_server ?m five_hits) fresh_store ''langchain''
        (Some 15) (Some (ensure_id_listed None)) ?bs
       = Inr ((FindDescriptorR (Some five_hits) (Some 5) # [], []), fresh_store)"
    by code_simp
  have c3: "take (nat 3) (filter (id_among (ids_of ?m)) five_hits)
            = [hit ''2'' ''two'' (1 / 5), hit ''4'' ''four'' (2 / 5)]"
    by code_simp
  have c4: "py_take ([]::blob list) 2 = []"
    by code_simp
  from filtered_search_walk [OF k a1, of "Some [1, 0]"]
  have A: "get_descriptor_response (canned_server [] five_hits) fresh_store ''langchain'' 3 15
     (Some bar_is_baz) None (Some [1, 0]) False = Inr (([], []), fresh_store)"
    by blast
  from filtered_search_walk [OF k b1, of "Some [1, 0]"] b2
  have B: "get_descriptor_response (canned_server [hit ''2'' ''two'' (1 / 5)] []) fresh_store
       ''langchain'' 3 15 (Some bar_is_baz) None (Some [1, 0]) False
     = Inr (([], []), fresh_store)"
    by blast
  from filtered_search_walk [OF k c1, of "Some [1, 0]"] c2
  have "get_descriptor_response (canned_server ?m five_hits)
       fresh_store ''langchain'' 3 15 (Some bar_is_baz) None (Some [1, 0]) False
     = Inr ((FindDescriptorR
                        (Some (take (nat 3) (filter (id_among (ids_of ?m)) five_hits)))
                        (Some (int (length
                           (take (nat 3) (filter (id_among (ids_of ?m)) five_hits))))) # [],
                      py_take [] (int (length
                           (take (nat 3) (filter (id_among (ids_of ?m)) five_hits))))),
                     (if int (length (take (nat 3) (filter (id_among (ids_of ?m)) five_hits))) < 3
                      then logger WARNING ''Returned items < k_neighbors; Try increasing fetch_k'' fresh_store
                      else fresh_store))"
    by blast
  then have C: "get_descriptor_response (canned_server ?m five_hits)
       fresh_store ''langchain'' 3 15 (Some bar_is_baz) None (Some [1, 0]) False
     = Inr (([FindDescriptorR (Some [hit ''2'' ''two'' (1 / 5), hit ''4'' ''four'' (2 / 5)])
                (Some 2)], []),
            logger WARNING ''Returned items < k_neighbors; Try increasing fetch_k'' fresh_store)"
    unfolding c3 by (simp add: c4)
  from A B C show ?thesis by blast
qed

text \<open>
  A filter that matches no document: the response is empty, with no warning, and
  \<open>similarity_search_by_vector\<close> raises on it. With \<open>k = 0\<close> the walk does not stop at
  \<open>k\<close> matches. With normalisation and no match among the neighbours the search raises.
\<close>

theorem filtered_search_counterexample:
  "get_descriptor_response (canned_server [] five_hits) fresh_store ''langchain'' 3 15
     (Some bar_is_baz) None (Some [1, 0]) False
   = Inr (([], []), fresh_store)
   \<and> logged fresh_store = []
   \<and> similarity_search_by_vector (canned_server [] five_hits) fresh_store [1, 0] 3 15
       (Some bar_is_baz) False
     = Inl IndexError
   \<and> get_descriptor_response (canned_server five_hits five_hits) fresh_store ''langchain'' 0 15
       (Some bar_is_baz) None (Some [1, 0]) False
     = Inr (([FindDescriptorR (Some five_hits) (Some 5)], []), fresh_store)
   \<and> get_descriptor_response (canned_server [hit ''9'' ''nine'' 1] five_hits) fresh_store
       ''langchain'' 3 15 (Some bar_is_baz) None (Some [1, 0]) True
     = Inl (ValueError ''max() arg is an empty sequence'')"
  by code_simp

subsection \<open>Overflow recovery\<close>

lemma range_of_halved_single: "py_range 0 1 (1 div 2) = Inl (ValueError ''range() arg 3 must not be zero'')"
  by (simp add: py_range_def)

text \<open>
  Claim C4 has the mutator retry once with the batch halved. \<open>add_batch\<close> sends the
  whole batch in one command, and what it halves is the number of commands, which is 1:
  the step of the \<open>range\<close> is 0, \<open>range\<close> raises, and no second query is sent, on any
  server and for any batch. The inner \<open>except\<close> turns this into the \<open>ValueError\<close> that
  advises a batch size below 1.
\<close>

theorem halved_retry_never_runs:
  "split_and_retry q s [query] all_blobs embeddings response
   = (if embeddings = [] then Inl (UnboundLocalError ''emb'')
      else Inl (ValueError ''range() arg 3 must not be zero''))
   \<and> add_batch (\<lambda>_. []) journal_full_server fresh_store ''langchain'' [''foo'', ''thud'']
       [[1, 0], [0, 1]] (Some [[(''baz'', PStr ''bar'')], [(''bar'', PStr ''baz'')]]) [''1'', ''2'']
     = Inl (ValueError ''Lower batch_size to < 1 and rerun'')"
proof
  show "split_and_retry q s [query] all_blobs embeddings response
   = (if embeddings = [] then Inl (UnboundLocalError ''emb'')
      else Inl (ValueError ''range() arg 3 must not be zero''))"
    by (simp add: split_and_retry_def py_range_def Let_def)
  show "add_batch (\<lambda>_. []) journal_full_server fresh_store ''langchain'' [''foo'', ''thud'']
       [[1, 0], [0, 1]] (Some [[(''baz'', PStr ''bar'')], [(''bar'', PStr ''baz'')]]) [''1'', ''2'']
     = Inl (ValueError ''Lower batch_size to < 1 and rerun'')"
    by code_simp
qed


subsection \<open>Diversity reranking\<close>

lemma select_by_index_shift:
  "map snd (filter (\<lambda>(i, r). i \<in> A) (enumerate n xs))
   = map fst (filter (\<lambda>p. snd p \<in> A) (zip xs [n ..< n + length xs]))"
proof (induction xs arbitrary: n)
  case Nil
  then show ?case by simp
next
  case (Cons x xs)
  have "[n ..< n + length (x # xs)] = n # [Suc n ..< Suc n + length xs]"
    by (simp add: upt_rec)
  then show ?case using Cons.IH [of "Suc n"] by simp
qed

lemma select_by_index_nths: "select_by_index candidates sel = nths candidates (set sel)"
  using select_by_index_shift [of "set sel" 0 candidates]
  by (simp add: select_by_index_def nths_def)

text \<open>
  Claim C6, as amended. The documents, or the pairs, that an MMR search returns are the
  candidates at the selected indices in the candidates' own order, which is that of the
  distance ranks: the closing comprehension is \<open>nths\<close>. Whenever the neighbour query
  answers with embeddings, the search returns the projection of that answer restricted
  to the selected indices, together with the store after the projection. The order of
  selection has no part in it: two selection functions that select the same indices, in
  whatever order, give the same output.
\<close>

theorem mmr_output_in_candidate_order:
  "select_by_index candidates mmr_selected = nths candidates (set mmr_selected)
   \<and> (query_by_embeddings q s (Some [embedding]) None k fetch_k flt None False mmr_include
        = Inr ((resp, blobs) # rest, s')
      \<and> blobs \<noteq> [] \<and> map_err bytes2embedding blobs = Inr embedding_list \<longrightarrow>
        max_marginal_relevance_search_by_vector mmr q s embedding k fetch_k lambda_mult flt
        = Inr (nths (fst (results2documents
                            (logger INFO ''VDMS similarity search mmr took {t} secs'' s')
                            ((resp, blobs) # rest)))
                 (set (mmr embedding embedding_list k lambda_mult)),
               snd (results2documents
                      (logger INFO ''VDMS similarity search mmr took {t} secs'' s')
                      ((resp, blobs) # rest)))
        \<and> max_marginal_relevance_search_by_vector_with_score mmr q s embedding k fetch_k
            lambda_mult flt
          = Inr (nths (fst (results2documents_and_scores
                              (logger INFO ''VDMS similarity search mmr took {t} secs'' s')
                              ((resp, blobs) # rest)))
                   (set (mmr embedding embedding_list k lambda_mult)),
                 snd (results2documents_and_scores
                        (logger INFO ''VDMS similarity search mmr took {t} secs'' s')
                        ((resp, blobs) # rest))))
   \<and> ((\<forall>qv embs n lam. set (mmr qv embs n lam) = set (mmr' qv embs n lam)) \<longrightarrow>
        max_marginal_relevance_search_by_vector mmr q s embedding k fetch_k lambda_mult flt
        = max_marginal_relevance_search_by_vector mmr' q s embedding k fetch_k lambda_mult flt
        \<and> max_marginal_relevance_search_by_vector_with_score mmr q s embedding k fetch_k
            lambda_mult flt
          = max_marginal_relevance_search_by_vector_with_score mmr' q s embedding k fetch_k
              lambda_mult flt)"
proof (intro conjI impI)
  show "select_by_index candidates mmr_selected = nths candidates (set mmr_selected)"
    by (rule select_by_index_nths)
next
  assume a: "query_by_embeddings q s (Some [embedding]) None k fetch_k flt None False mmr_include
               = Inr ((resp, blobs) # rest, s')
             \<and> blobs \<noteq> [] \<and> map_err bytes2embedding blobs = Inr embedding_list"
  then show "max_marginal_relevance_search_by_vector mmr q s embedding k fetch_k lambda_mult flt
        = Inr (nths (fst (results2documents
                            (logger INFO ''VDMS similarity search mmr took {t} secs'' s')
                            ((resp, blobs) # rest)))
                 (set (mmr embedding embedding_list k lambda_mult)),
               snd (results2documents
                      (logger INFO ''VDMS similarity search mmr took {t} secs'' s')
                      ((resp, blobs) # rest)))"
    by (simp add: max_marginal_relevance_search_by_vector_def Let_def case_prod_beta
          select_by_index_nths)
next
  assume a: "query_by_embeddings q s (Some [embedding]) None k fetch_k flt None False mmr_include
               = Inr ((resp, blobs) # rest, s')
             \<and> blobs \<noteq> [] \<and> map_err bytes2embedding blobs = Inr embedding_list"
  then show "max_marginal_relevance_search_by_vector_with_score mmr q s embedding k fetch_k
            lambda_mult flt
          = Inr (nths (fst (results2documents_and_scores
                              (logger INFO ''VDMS similarity search mmr took {t} secs'' s')
                              ((resp, blobs) # rest)))
                   (set (mmr embedding embedding_list k lambda_mult)),
                 snd (results2documents_and_scores
                        (logger INFO ''VDMS similarity search mmr took {t} secs'' s')
                        ((resp, blobs) # rest)))"
    by (simp add: max_marginal_relevance_search_by_vector_with_score_def Let_def case_prod_beta
          select_by_index_nths)
next
  assume a: "\<forall>qv embs n lam. set (mmr qv embs n lam) = set (mmr' qv embs n lam)"
  then have eq: "\<And>(cs :: document list) qv embs n lam.
      select_by_index cs (mmr qv embs n lam) = select_by_index cs (mmr' qv embs n lam)"
    by (simp add: select_by_index_nths)
  show "max_marginal_relevance_search_by_vector mmr q s embedding k fetch_k lambda_mult flt
        = max_marginal_relevance_search_by_vector mmr' q s embedding k fetch_k lambda_mult flt"
    unfolding max_marginal_relevance_search_by_vector_def Let_def eq ..
next
  assume a: "\<forall>qv embs n lam. set (mmr qv embs n lam) = set (mmr' qv embs n lam)"
  then have eq: "\<And>(cs :: (document \<times> pyfloat) list) qv embs n lam.
      select_by_index cs (mmr qv embs n lam) = select_by_index cs (mmr' qv embs n lam)"
    by (simp add: select_by_index_nths)
  show "max_marginal_relevance_search_by_vector_with_score mmr q s embedding k fetch_k
            lambda_mult flt
          = max_marginal_relevance_search_by_vector_with_score mmr' q s embedding k fetch_k
              lambda_mult flt"
    unfolding max_marginal_relevance_search_by_vector_with_score_def Let_def eq ..
qed

theorem mmr_output_in_candidate_order_witness:
  "query_by_embeddings far_server fresh_store (Some [[1, 1]]) None 3 15 None None False
       mmr_include
     = Inr ([([FindDescriptorR (Some far_hits) (Some 3)], map EmbeddingBlob far_embeddings)],
            fresh_store)
   \<and> map EmbeddingBlob far_embeddings \<noteq> []
   \<and> map_err bytes2embedding (map EmbeddingBlob far_embeddings) = Inr far_embeddings
   \<and> one_pick_short [1, 1] far_embeddings 3 (1 / 4) = [2, 1]
   \<and> max_marginal_relevance_search_by_vector one_pick_short far_server fresh_store [1, 1] 3 15
        (1 / 4) None
     = Inr ([doc_of ''b'' ''second'', doc_of ''c'' ''third''],
            fresh_store\<lparr>logged := [(INFO, ''VDMS similarity search mmr took {t} secs'')]\<rparr>)
   \<and> max_marginal_relevance_search_by_vector_with_score one_pick_short far_server fresh_store
        [1, 1] 3 15 (1 / 4) None
     = Inr ([(doc_of ''b'' ''second'', Fin 1), (doc_of ''c'' ''third'', Fin 2)],
            fresh_store\<lparr>logged := [(INFO, ''VDMS similarity search mmr took {t} secs'')]\<rparr>)
   \<and> maximal_marginal_relevance [1, 1] three_embeddings 3 (1 / 4) = [0, 2, 1]
   \<and> sorted_selection [1, 1] three_embeddings 3 (1 / 4) = [0, 1, 2]
   \<and> max_marginal_relevance_search_by_vector maximal_marginal_relevance embedding_server
        fresh_store [1, 1] 3 15 (1 / 4) None
     = max_marginal_relevance_search_by_vector sorted_selection embedding_server
        fresh_store [1, 1] 3 15 (1 / 4) None
   \<and> max_marginal_relevance_search_by_vector_with_score maximal_marginal_relevance
        embedding_server fresh_store [1, 1] 3 15 (1 / 4) None
     = max_marginal_relevance_search_by_vector_with_score sorted_selection embedding_server
        fresh_store [1, 1] 3 15 (1 / 4) None"
proof -
  let ?res = "[([FindDescriptorR (Some far_hits) (Some 3)], map EmbeddingBlob far_embeddings)]"
  let ?s2 = "logger INFO ''VDMS similarity search mmr took {t} secs'' fresh_store"
  have q: "query_by_embeddings far_server fresh_store (Some [[1, 1]]) None 3 15 None None False
             mmr_include = Inr (?res, fresh_store)"
    by code_simp
  have n: "map EmbeddingBlob far_embeddings \<noteq> []"
    by code_simp
  have e: "map_err bytes2embedding (map EmbeddingBlob far_embeddings) = Inr far_embeddings"
    by code_simp
  have p: "one_pick_short [1, 1] far_embeddings 3 (1 / 4) = [2, 1]"
    by code_simp
  have d: "nths (fst (results2documents ?s2 ?res)) (set [2, 1])
             = [doc_of ''b'' ''second'', doc_of ''c'' ''third'']"
          "snd (results2documents ?s2 ?res)
             = fresh_store\<lparr>logged := [(INFO, ''VDMS similarity search mmr took {t} secs'')]\<rparr>"
    by code_simp+
  have ds: "nths (fst (results2documents_and_scores ?s2 ?res)) (set [2, 1])
             = [(doc_of ''b'' ''second'', Fin 1), (doc_of ''c'' ''third'', Fin 2)]"
          "snd (results2documents_and_scores ?s2 ?res)
             = fresh_store\<lparr>logged := [(INFO, ''VDMS similarity search mmr took {t} secs'')]\<rparr>"
    by code_simp+
  have h: "\<forall>qv embs n lam.
      set (maximal_marginal_relevance qv embs n lam) = set (sorted_selection qv embs n lam)"
    by (simp add: sorted_selection_def)
  have a: "maximal_marginal_relevance [1, 1] three_embeddings 3 (1 / 4) = [0, 2, 1]"
    by code_simp
  have b: "sorted_selection [1, 1] three_embeddings 3 (1 / 4) = [0, 1, 2]"
    by code_simp
  from mmr_output_in_candidate_order
         [where mmr = one_pick_short and q = far_server and s = fresh_store
            and embedding = "[1, 1]" and k = 3 and fetch_k = 15 and lambda_mult = "1 / 4"
            and flt = None and resp = "[FindDescriptorR (Some far_hits) (Some 3)]"
            and blobs = "map EmbeddingBlob far_embeddings" and rest = "[]" and s' = fresh_store
            and embedding_list = far_embeddings] q n e
  have s0: "max_marginal_relevance_search_by_vector one_pick_short far_server fresh_store [1, 1]
              3 15 (1 / 4) None
            = Inr (nths (fst (results2documents ?s2 ?res))
                     (set (one_pick_short [1, 1] far_embeddings 3 (1 / 4))),
                   snd (results2documents ?s2 ?res))"
           "max_marginal_relevance_search_by_vector_with_score one_pick_short far_server
              fresh_store [1, 1] 3 15 (1 / 4) None
            = Inr (nths (fst (results2documents_and_scores ?s2 ?res))
                     (set (one_pick_short [1, 1] far_embeddings 3 (1 / 4))),
                   snd (results2documents_and_scores ?s2 ?res))"
    by blast+
  have s: "max_marginal_relevance_search_by_vector one_pick_short far_server fresh_store [1, 1]
             3 15 (1 / 4) None
           = Inr ([doc_of ''b'' ''second'', doc_of ''c'' ''third''],
                  fresh_store\<lparr>logged := [(INFO, ''VDMS similarity search mmr took {t} secs'')]\<rparr>)"
          "max_marginal_relevance_search_by_vector_with_score one_pick_short far_server
             fresh_store [1, 1] 3 15 (1 / 4) None
           = Inr ([(doc_of ''b'' ''second'', Fin 1), (doc_of ''c'' ''third'', Fin 2)],
                  fresh_store\<lparr>logged := [(INFO, ''VDMS similarity search mmr took {t} secs'')]\<rparr>)"
    unfolding s0 p d ds by (rule refl)+
  from mmr_output_in_candidate_order
         [where mmr = maximal_marginal_relevance and mmr' = sorted_selection
            and q = embedding_server and s = fresh_store and embedding = "[1, 1]" and k = 3
            and fetch_k = 15 and lambda_mult = "1 / 4" and flt = None] h
  have i: "max_marginal_relevance_search_by_vector maximal_marginal_relevance embedding_server
             fresh_store [1, 1] 3 15 (1 / 4) None
           = max_marginal_relevance_search_by_vector sorted_selection embedding_server
               fresh_store [1, 1] 3 15 (1 / 4) None"
          "max_marginal_relevance_search_by_vector_with_score maximal_marginal_relevance
             embedding_server fresh_store [1, 1] 3 15 (1 / 4) None
           = max_marginal_relevance_search_by_vector_with_score sorted_selection embedding_server
               fresh_store [1, 1] 3 15 (1 / 4) None"
    by blast+
  from q n e p s a b i show ?thesis by blast
qed

text \<open>
  Three candidates whose selection order is \<open>0, 2, 1\<close>: the search returns them in the
  order \<open>0, 1, 2\<close>. And three candidates of which the last and then the middle one are
  selected: the search returns the middle one before the last.
\<close>

theorem mmr_output_order_counterexample:
  "maximal_marginal_relevance [1, 1] three_embeddings 3 (1 / 4) = [0, 2, 1]
   \<and> max_marginal_relevance_search_by_vector maximal_marginal_relevance embedding_server
        fresh_store [1, 1] 3 15 (1 / 4) None
     = Inr ([doc_of ''a'' ''first'', doc_of ''b'' ''second'', doc_of ''c'' ''third''],
            fresh_store\<lparr>logged := [(INFO, ''VDMS similarity search mmr took {t} secs'')]\<rparr>)
   \<and> [doc_of ''a'' ''first'', doc_of ''b'' ''second'', doc_of ''c'' ''third'']
     \<noteq> map (\<lambda>i. [doc_of ''a'' ''first'', doc_of ''b'' ''second'', doc_of ''c'' ''third''] ! i)
         [0, 2, 1]
   \<and> one_pick_short [1, 1] far_embeddings 3 (1 / 4) = [2, 1]
   \<and> max_marginal_relevance_search_by_vector one_pick_short far_server fresh_store [1, 1] 3 15
        (1 / 4) None
     = Inr ([doc_of ''b'' ''second'', doc_of ''c'' ''third''],
            fresh_store\<lparr>logged := [(INFO, ''VDMS similarity search mmr took {t} secs'')]\<rparr>)
   \<and> [doc_of ''b'' ''second'', doc_of ''c'' ''third'']
     \<noteq> map (\<lambda>i. [doc_of ''a'' ''first'', doc_of ''b'' ''second'', doc_of ''c'' ''third''] ! i)
         [2, 1]"
  by code_simp


subsection \<open>Deletion\<close>

lemma batch_delete_shape:
  "batch_delete q s name c ids bs = Inr (r, s1) \<Longrightarrow> \<exists>e n. r = [FindDescriptorR e n]"
  by (auto simp: batch_delete_def Let_def split: option.splits sum.splits prod.splits)

lemma delete_never_false:
  "delete q s ids name_kw constraints_kw batch_size_kw = Inr (b, s') \<Longrightarrow> b"
  by (auto simp: delete_def Let_def dest!: batch_delete_shape
      split: sum.splits prod.splits list.splits)

lemma run_ok:
  assumes "answers_every_query q" and "qs \<noteq> []"
  shows "\<exists>r a s'. run_vdms_query q s qs bs = Inr ((r, a), s') \<and> list_all identified r"
proof -
  obtain r a b' where qa: "q (backend s) qs bs = ((r, a), b')"
    by (metis prod.exhaust)
  then have "r \<noteq> []"
    using assms by (metis answers_every_query_def fst_conv)
  then have "run_vdms_query q s qs bs = Inr ((map id_required r, a), s\<lparr>backend := b'\<rparr>)"
    using qa by (simp add: run_vdms_query_def check_valid_response_def)
  then show ?thesis
    using run_vdms_query_identified by blast
qed

lemma extend_entities_ok:
  "list_all identified r \<Longrightarrow> \<exists>es. extend_entities acc r = Inr es"
proof (induction r arbitrary: acc)
  case Nil
  then show ?case by simp
next
  case (Cons x r)
  then show ?case
    by (cases x) (auto simp: identified_def split: option.splits)
qed

lemma delete_batches_ok:
  assumes "answers_every_query q"
  shows "\<exists>x. delete_batches q s name c ids bs idxs acc = Inr x"
proof (induction idxs arbitrary: s acc)
  case Nil
  show ?case by (rule exI [of _ "(False, acc, s)"]) simp
next
  case (Cons i idxs)
  let ?qs = "map (\<lambda>i. add_descriptor FindDescriptor name None None (Some (id_constraint i c))
                        (Some \<lparr>res_list = Some (collection_properties s), res_blob = None,
                               res_count = None\<rparr>))
               (py_slice ids i (min (i + bs) (int (length ids))))"
  show ?case
  proof (cases "?qs = []")
    case True
    then have "delete_batches q s name c ids bs (i # idxs) acc = Inr (True, acc, s)"
      by (simp add: Let_def)
    then show ?thesis by blast
  next
    case False
    from run_ok [OF assms False, of s "[]"] obtain r a s' where
      r: "run_vdms_query q s ?qs [] = Inr ((r, a), s')" "list_all identified r"
      by blast
    from extend_entities_ok [OF r(2), of acc] obtain es where
      es: "extend_entities acc r = Inr es" by blast
    from Cons.IH [of s' es] obtain x where
      "delete_batches q s' name c ids bs idxs es = Inr x" by blast
    then have "delete_batches q s name c ids bs (i # idxs) acc = Inr x"
      using False r(1) es by (simp add: Let_def)
    then show ?thesis by blast
  qed
qed

lemma batch_delete_ok:
  assumes "answers_every_query q" and "ids = None \<or> bs \<noteq> 0"
  shows "\<exists>x. batch_delete q s name c ids bs = Inr x"
proof (cases ids)
  case None
  let ?qs = "[add_descriptor FindDescriptor name None None (Some c)
                (Some \<lparr>res_list = Some (collection_properties s), res_blob = None,
                       res_count = None\<rparr>)]"
  from run_ok [OF assms(1), of ?qs s "[]"] obtain r a s' where
    r: "run_vdms_query q s ?qs [] = Inr ((r, a), s')" "list_all identified r"
    by blast
  from extend_entities_ok [OF r(2), of "[]"] obtain es where
    es: "extend_entities [] r = Inr es" by blast
  have "batch_delete q s name c ids bs = Inr ([FindDescriptorR (Some es) (Some (int (length es)))], s')"
    using None r(1) es by (simp add: batch_delete_def Let_def)
  then show ?thesis by blast
next
  case (Some ids')
  then have "bs \<noteq> 0" using assms(2) by simp
  then obtain idxs where i: "py_range 0 (int (length ids')) bs = Inr idxs"
    by (cases "0 < bs") (auto simp: py_range_def)
  from delete_batches_ok [OF assms(1), of s name c ids' bs idxs "[]"] obtain x where
    "delete_batches q s name c ids' bs idxs [] = Inr x" by blast
  then obtain y where "batch_delete q s name c ids bs = Inr y"
    using Some i by (cases x) (simp add: batch_delete_def)
  then show ?thesis by blast
qed

text \<open>
  Claim C10, as amended. \<open>delete\<close> never returns \<open>False\<close>, whatever the ids, the
  constraints and the answers of the server are. It does return \<open>True\<close> on every server
  that answers each query, unless the caller passes a list of ids with the batch size 0;
  and then \<open>range\<close> raises \<open>ValueError\<close> before any query is sent, on every server.
  What \<open>delete\<close> tests is the answer that \<open>batch_delete\<close> seeds with a \<open>FindDescriptor\<close>
  entry.
\<close>

theorem delete_returns_true:
  "(\<forall>b s'. delete q s ids name_kw constraints_kw batch_size_kw = Inr (b, s') \<longrightarrow> b)
   \<and> (answers_every_query q \<and> (ids = None \<or> batch_size_kw \<noteq> Some 0) \<longrightarrow>
        (\<exists>s'. delete q s ids name_kw constraints_kw batch_size_kw = Inr (True, s')))
   \<and> delete q s (Some ids') name_kw constraints_kw (Some 0)
     = Inl (ValueError ''range() arg 3 must not be zero'')"
proof (intro conjI allI impI)
  fix b s'
  assume "delete q s ids name_kw constraints_kw batch_size_kw = Inr (b, s')"
  then show b by (rule delete_never_false)
next
  assume a: "answers_every_query q \<and> (ids = None \<or> batch_size_kw \<noteq> Some 0)"
  let ?name = "case name_kw of None \<Rightarrow> collection_name s | Some n \<Rightarrow> n"
  let ?c = "case constraints_kw of
               Some (PDict c) \<Rightarrow> AList.update ''_deletion'' (PList [PStr ''=='', PNum (Fin 1)]) c
             | _ \<Rightarrow> [(''_deletion'', PList [PStr ''=='', PNum (Fin 1)])]"
  let ?bs = "case batch_size_kw of None \<Rightarrow> DEFAULT_INSERT_BATCH_SIZE | Some b \<Rightarrow> b"
  have "ids = None \<or> ?bs \<noteq> 0"
    using a by (cases batch_size_kw) (auto simp: DEFAULT_INSERT_BATCH_SIZE_def)
  with batch_delete_ok [of q ids ?bs s ?name ?c] a obtain r s1 where
    bd: "batch_delete q s ?name ?c ids ?bs = Inr (r, s1)"
    by fastforce
  from run_ok [of q "[FindDescriptorSet ?name True]" s1 "[]"] a obtain r2 a2 s2 where
    r2: "run_vdms_query q s1 [FindDescriptorSet ?name True] [] = Inr ((r2, a2), s2)"
    by auto
  from batch_delete_shape [OF bd] obtain e n where r: "r = [FindDescriptorR e n]" by blast
  have "delete q s ids name_kw constraints_kw batch_size_kw = Inr (True, s2)"
    using bd r2 r by (simp add: delete_def Let_def)
  then show "\<exists>s'. delete q s ids name_kw constraints_kw batch_size_kw = Inr (True, s')"
    by blast
next
  show "delete q s (Some ids') name_kw constraints_kw (Some 0)
        = Inl (ValueError ''range() arg 3 must not be zero'')"
    by (simp add: delete_def batch_delete_def py_range_def Let_def)
qed

theorem delete_returns_true_witness:
  "answers_every_query echo_server
   \<and> delete echo_server fresh_store (Some [''1'', ''2'', ''3'']) None None (Some 2)
     = Inr (True, fresh_store)
   \<and> answers_every_query silent_server
   \<and> delete silent_server fresh_store None None
       (Some (PDict [(''bar'', PList [PStr ''=='', PStr ''baz''])])) None
     = Inr (True, fresh_store)
   \<and> delete silent_server fresh_store None None None (Some 0) = Inr (True, fresh_store)"
proof -
  have a: "answers_every_query echo_server"
    by (simp add: answers_every_query_def echo_server_def)
  have b: "answers_every_query silent_server"
    by (simp add: answers_every_query_def silent_server_def)
  have c: "delete echo_server fresh_store (Some [''1'', ''2'', ''3'']) None None (Some 2)
             = Inr (True, fresh_store)"
    by code_simp
  have d: "delete silent_server fresh_store None None
              (Some (PDict [(''bar'', PList [PStr ''=='', PStr ''baz''])])) None
             = Inr (True, fresh_store)"
    by code_simp
  have d0: "delete silent_server fresh_store None None None (Some 0) = Inr (True, fresh_store)"
    by code_simp
  from delete_returns_true
         [of echo_server fresh_store "Some [''1'', ''2'', ''3'']" None None "Some 2"] a
  obtain s1 where "delete echo_server fresh_store (Some [''1'', ''2'', ''3'']) None None (Some 2)
     = Inr (True, s1)" by auto
  with c have e: "delete echo_server fresh_store (Some [''1'', ''2'', ''3'']) None None (Some 2)
     = Inr (True, fresh_store)" by simp
  from delete_returns_true [of silent_server fresh_store None None
       "Some (PDict [(''bar'', PList [PStr ''=='', PStr ''baz''])])" None] b
  obtain s2 where "delete silent_server fresh_store None None
       (Some (PDict [(''bar'', PList [PStr ''=='', PStr ''baz''])])) None
     = Inr (True, s2)" by auto
  with d have f: "delete silent_server fresh_store None None
       (Some (PDict [(''bar'', PList [PStr ''=='', PStr ''baz''])])) None
     = Inr (True, fresh_store)" by simp
  from delete_returns_true [of silent_server fresh_store None None None "Some 0"] b
  obtain s3 where "delete silent_server fresh_store None None None (Some 0) = Inr (True, s3)"
    by auto
  with d0 have g: "delete silent_server fresh_store None None None (Some 0)
     = Inr (True, fresh_store)" by simp
  from a b e f g show ?thesis by blast
qed

text \<open>
  Three ids with the batch size 0, on a server that answers every query: \<open>delete\<close> does
  not return.
\<close>

theorem delete_batch_size_zero_counterexample:
  "answers_every_query echo_server
   \<and> delete echo_server fresh_store (Some [''1'', ''2'', ''3'']) None None (Some 0)
     = Inl (ValueError ''range() arg 3 must not be zero'')"
proof -
  have a: "answers_every_query echo_server"
    by (simp add: answers_every_query_def echo_server_def)
  have b: "delete echo_server fresh_store (Some [''1'', ''2'', ''3'']) None None (Some 0)
             = Inl (ValueError ''range() arg 3 must not be zero'')"
    by code_simp
  from a b show ?thesis by blast
qed

end
